theory Spec2Isabelle
  imports Main
begin

section \<open>Job lifecycle engine of pyiron_base: data model\<close>

text \<open>
  The development embeds \<^verbatim>\<open>GenericJob\<close> (objects/job/generic.py) and
  \<^verbatim>\<open>Project.refresh_job_status_based_on_job_id\<close> (project.py).
  Python exceptions are values of \<open>error\<close>; a method is a function from the
  in-memory job object and the shared world (job table, file system) to an optional
  exception together with the object and the world it leaves behind.
\<close>

datatype error =
    IOError string
  | NotImplementedError string
  | RuntimeError string
  | ValueError string
  | LookupError nat
  | OtherException string
  | KeyboardInterrupt
  | SystemExit

text \<open>\<^verbatim>\<open>except Exception\<close> catches everything but the two
  \<^verbatim>\<open>BaseException\<close>s that are not exceptions.\<close>

fun is_Exception :: "error \<Rightarrow> bool" where
  "is_Exception KeyboardInterrupt = False"
| "is_Exception SystemExit = False"
| "is_Exception _ = True"

text \<open>The run modes of \<^verbatim>\<open>Runmode\<close>, as tests/objects/server/test_runmode.py
  exercises them; the default mode is modal.\<close>

datatype runmode = Modal | NonModal | Queue | Manual

text \<open>Modelled from the spec: the \<^verbatim>\<open>thread\<close> property of Runmode
  (objects/server/runmode.py is not part of the sources); the spec gives
  \<^verbatim>\<open>non_modal (a.k.a. thread)\<close>.\<close>

definition rm_thread :: "runmode \<Rightarrow> bool" where
  "rm_thread m = (m = NonModal)"

text \<open>What a child process did: it completed with exit status 0 and the given output,
  it exited non-zero (\<^verbatim>\<open>subprocess.CalledProcessError\<close> with its output), or the
  call raised something else.\<close>

datatype proc_result = Completed string | CalledProcessError string | ProcRaises error

text \<open>One row of the job table, with the columns the engine reads and writes.\<close>

record db_row =
  r_job :: string
  r_status :: string
  r_masterid :: "nat option"
  r_parentid :: "nat option"

text \<open>The in-memory job object: \<open>status_string\<close> and \<open>status_job_id\<close> are
  the two fields of its \<^verbatim>\<open>JobStatus\<close>, \<open>run_mode\<close> and \<open>queue_id\<close>
  those of its \<^verbatim>\<open>Server\<close>, \<open>has_process\<close> says whether
  \<^verbatim>\<open>_process\<close> is set.\<close>

record job =
  job_id :: "nat option"
  job_name :: string
  status_string :: string
  status_job_id :: "nat option"
  master_id :: "nat option"
  parent_id :: "nat option"
  run_mode :: runmode
  queue_id :: "string option"
  restart_file_list :: "string list"
  lib_available :: bool
  lib_enabled :: bool
  has_process :: bool
  working_directory :: string

text \<open>What a file holds: text, or the generated wrapper script \<^verbatim>\<open>run_job.py\<close>
  with its three parameters (working directory, job id, debug flag).\<close>

datatype file_content = Text string | RunWrapper string "nat option" bool

text \<open>The state shared between processes: the job table in table order with the next
  free id, the regular files with their contents, the directories, and the persistent
  object store, keyed by job name.\<close>

record world =
  db :: "(nat \<times> db_row) list"
  next_id :: nat
  files :: "string \<rightharpoonup> file_content"
  dirs :: "string list"
  hdf :: "string \<rightharpoonup> job"

type_synonym outcome = "error option \<times> job \<times> world"

text \<open>Python truthiness of an optional integer: \<^verbatim>\<open>if self.job_id:\<close> fails for
  \<^verbatim>\<open>None\<close> and for \<^verbatim>\<open>0\<close>.\<close>

fun truthy :: "nat option \<Rightarrow> bool" where
  "truthy None = False"
| "truthy (Some i) = (i \<noteq> 0)"

subsection \<open>The job table\<close>

text \<open>Modelled from the spec: the StatusStore interface \<^verbatim>\<open>get(id) -> status\<close>,
  \<^verbatim>\<open>set(id, status)\<close>, \<^verbatim>\<open>insert(record) -> id\<close>,
  \<^verbatim>\<open>get_children(parent_id) -> [id]\<close>, \<^verbatim>\<open>delete(id)\<close> (the database
  class is not part of the sources). Reading a row that does not exist raises; updating
  or deleting one that does not exist changes nothing; an id is never reused.\<close>

definition get_item_by_id :: "world \<Rightarrow> nat \<Rightarrow> error + db_row" where
  "get_item_by_id w i = (case map_of (db w) i of None \<Rightarrow> Inl (LookupError i) | Some r \<Rightarrow> Inr r)"

definition item_update :: "(db_row \<Rightarrow> db_row) \<Rightarrow> nat \<Rightarrow> world \<Rightarrow> world" where
  "item_update f i w = w\<lparr>db := map (\<lambda>(k, r). if k = i then (k, f r) else (k, r)) (db w)\<rparr>"

definition item_update_status :: "string \<Rightarrow> nat \<Rightarrow> world \<Rightarrow> world" where
  "item_update_status s i w = item_update (\<lambda>r. r\<lparr>r_status := s\<rparr>) i w"

definition add_item_dict :: "db_row \<Rightarrow> world \<Rightarrow> nat \<times> world" where
  "add_item_dict r w = (next_id w, w\<lparr>db := db w @ [(next_id w, r)], next_id := Suc (next_id w)\<rparr>)"

definition delete_item :: "nat \<Rightarrow> world \<Rightarrow> world" where
  "delete_item i w = w\<lparr>db := filter (\<lambda>(k, r). k \<noteq> i) (db w)\<rparr>"

text \<open>\<^verbatim>\<open>[job["id"] for job in db.get_items_dict({'parentid': str(self.job_id)})]\<close>,
  in table order; no row has the parent \<^verbatim>\<open>'None'\<close>.\<close>

definition get_items_dict_parentid :: "nat option \<Rightarrow> world \<Rightarrow> nat list" where
  "get_items_dict_parentid p w =
     (case p of None \<Rightarrow> []
      | Some i \<Rightarrow> map fst (filter (\<lambda>(k, r). r_parentid r = Some i) (db w)))"

subsection \<open>The file system\<close>

definition isfile :: "world \<Rightarrow> string \<Rightarrow> bool" where
  "isfile w f = (files w f \<noteq> None)"

definition isdir :: "world \<Rightarrow> string \<Rightarrow> bool" where
  "isdir w d = (d \<in> set (dirs w))"

text \<open>\<^verbatim>\<open>posixpath.join(d, name)\<close> for a relative \<open>name\<close>.\<close>

definition path_join :: "string \<Rightarrow> string \<Rightarrow> string" where
  "path_join d name =
     (if d = [] then name else if last d = CHR ''/'' then d @ name else d @ ''/'' @ name)"

definition basename :: "string \<Rightarrow> string" where
  "basename f = rev (takeWhile (\<lambda>c. c \<noteq> CHR ''/'') (rev f))"

text \<open>\<^verbatim>\<open>with open(posixpath.join(d, name), "w") as f: f.write(c)\<close>: opening fails
  when the directory does not exist.\<close>

definition write_file :: "string \<Rightarrow> string \<Rightarrow> file_content \<Rightarrow> world \<Rightarrow> error + world" where
  "write_file d name c w =
     (if isdir w d then Inr (w\<lparr>files := (files w)(path_join d name \<mapsto> c)\<rparr>)
      else Inl (IOError (path_join d name)))"

text \<open>\<^verbatim>\<open>shutil.copy(f, d)\<close>.\<close>

definition shutil_copy :: "string \<Rightarrow> string \<Rightarrow> world \<Rightarrow> error + world" where
  "shutil_copy f d w =
     (case files w f of
        None \<Rightarrow> Inl (IOError f)
      | Some c \<Rightarrow> write_file d (basename f) c w)"

subsection \<open>Results of methods\<close>

text \<open>A method that may call \<^verbatim>\<open>run\<close> yields \<open>None\<close> when the recursion budget
  is used up, and otherwise the exception raised, if any, with the object and the world.\<close>

definition ok :: "job \<Rightarrow> world \<Rightarrow> outcome option" where
  "ok j w = Some (None, j, w)"

definition raises :: "error \<Rightarrow> job \<Rightarrow> world \<Rightarrow> outcome option" where
  "raises e j w = Some (Some e, j, w)"

text \<open>Sequencing on the same object: an exception ends the method.\<close>

definition seq :: "outcome option \<Rightarrow> (job \<Rightarrow> world \<Rightarrow> outcome option) \<Rightarrow> outcome option" where
  "seq m k =
     (case m of
        None \<Rightarrow> None
      | Some (Some e, j, w) \<Rightarrow> Some (Some e, j, w)
      | Some (None, j, w) \<Rightarrow> k j w)"

text \<open>A call on another object (a loaded parent, child or master): its exception
  propagates, the world it leaves is kept, the calling object is as it was.\<close>

definition seq_other :: "outcome option \<Rightarrow> job \<Rightarrow> (world \<Rightarrow> outcome option) \<Rightarrow> outcome option" where
  "seq_other m self k =
     (case m of
        None \<Rightarrow> None
      | Some (Some e, other, w) \<Rightarrow> Some (Some e, self, w)
      | Some (None, other, w) \<Rightarrow> k w)"

definition exc_of :: "outcome \<Rightarrow> error option" where
  "exc_of r = fst r"

definition job_of :: "outcome \<Rightarrow> job" where
  "job_of r = fst (snd r)"

definition world_of :: "outcome \<Rightarrow> world" where
  "world_of r = snd (snd r)"

subsection \<open>Collaborators outside the sources\<close>

text \<open>Modelled from the spec: \<^verbatim>\<open>JobStatus\<close> (objects/job/jobstatus.py is not part of
  the sources). The status is ``persisted in the shared store, not only in memory'':
  assigning it writes the row of the id the status object was built with. A status
  object built without an initial status is \<^verbatim>\<open>initialized\<close>.\<close>

definition set_status :: "string \<Rightarrow> job \<Rightarrow> world \<Rightarrow> job \<times> world" where
  "set_status s j w =
     (j\<lparr>status_string := s\<rparr>,
      case status_job_id j of None \<Rightarrow> w | Some i \<Rightarrow> item_update_status s i w)"

text \<open>Modelled from the spec: the \<^verbatim>\<open>master_id\<close> and \<^verbatim>\<open>parent_id\<close>
  properties of \<^verbatim>\<open>JobCore\<close> (objects/job/core.py is not part of the sources): fields
  of the job record, persisted with it once the job has an id.\<close>

definition set_master_id :: "nat option \<Rightarrow> job \<Rightarrow> world \<Rightarrow> job \<times> world" where
  "set_master_id m j w =
     (j\<lparr>master_id := m\<rparr>,
      case job_id j of None \<Rightarrow> w | Some i \<Rightarrow> item_update (\<lambda>r. r\<lparr>r_masterid := m\<rparr>) i w)"

definition set_parent_id :: "nat option \<Rightarrow> job \<Rightarrow> world \<Rightarrow> job \<times> world" where
  "set_parent_id p j w =
     (j\<lparr>parent_id := p\<rparr>,
      case job_id j of None \<Rightarrow> w | Some i \<Rightarrow> item_update (\<lambda>r. r\<lparr>r_parentid := p\<rparr>) i w)"

text \<open>Whether a path lies inside a directory.\<close>

definition inside :: "string \<Rightarrow> string \<Rightarrow> bool" where
  "inside d f = (take (length (path_join d [])) f = path_join d [])"

text \<open>Modelled from the spec: \<^verbatim>\<open>JobCore.remove\<close> (not part of the sources), which
  ``removes all persisted artifacts and the record'': the row of the job's id, its entry
  in the object store, its working directory and the files in it.\<close>

definition remove :: "job \<Rightarrow> world \<Rightarrow> outcome" where
  "remove j w =
     (None, j,
      (case job_id j of None \<Rightarrow> w | Some i \<Rightarrow> delete_item i w)
        \<lparr>files := (\<lambda>f. if inside (working_directory j) f then None else files w f),
         dirs := removeAll (working_directory j) (dirs w),
         hdf := (hdf w)(job_name j := None)\<rparr>)"

text \<open>Modelled from the spec: the persistent object store, \<^verbatim>\<open>save(job)\<close> and
  \<^verbatim>\<open>load(id) -> job_state\<close>. \<^verbatim>\<open>to_hdf\<close> of the sources writes type, server and
  restart file list through the store.\<close>

definition to_hdf :: "job \<Rightarrow> world \<Rightarrow> world" where
  "to_hdf j w = w\<lparr>hdf := (hdf w)(job_name j \<mapsto> j)\<rparr>"

text \<open>\<^verbatim>\<open>from_hdf\<close> restores the server and the restart file list.\<close>

definition from_hdf :: "job \<Rightarrow> world \<Rightarrow> outcome" where
  "from_hdf j w =
     (case hdf w (job_name j) of
        None \<Rightarrow> (Some (IOError (job_name j)), j, w)
      | Some h \<Rightarrow>
          (None,
           j\<lparr>run_mode := run_mode h, queue_id := queue_id h,
             restart_file_list := restart_file_list h\<rparr>, w))"

text \<open>
  \<^verbatim>\<open>Project.load\<close> and \<^verbatim>\<open>Project.load_from_jobpath\<close> of project.py: a job that
  is not in the table is not loaded (the caller then fails on \<^verbatim>\<open>None\<close>), the id
  \<^verbatim>\<open>0\<close> is refused. Modelled from the spec: \<^verbatim>\<open>JobPath.load_object\<close> (not part
  of the sources) rehydrates the object from the store; its id, status, master and parent
  are those of the row.\<close>

definition load :: "nat \<Rightarrow> world \<Rightarrow> error + job" where
  "load i w =
     (case map_of (db w) i of
        None \<Rightarrow> Inl (OtherException ''NoneType'')
      | Some r \<Rightarrow>
          if i = 0 then Inl (ValueError ''Either a job ID or an database entry has to be provided.'')
          else (case hdf w (r_job r) of
                  None \<Rightarrow> Inl (IOError (r_job r))
                | Some h \<Rightarrow>
                    Inr (h\<lparr>job_id := Some i, status_string := r_status r,
                           status_job_id := Some i, master_id := r_masterid r,
                           parent_id := r_parentid r, has_process := False\<rparr>)))"

text \<open>The methods a derived job class provides and the processes outside the engine.
  Each takes the object it is called on.\<close>

record ext =
  x_write_input :: "job \<Rightarrow> world \<Rightarrow> outcome"
  x_collect_output :: "job \<Rightarrow> world \<Rightarrow> outcome"
  x_collect_logfiles :: "job \<Rightarrow> world \<Rightarrow> outcome"
  x_run_if_lib :: "job \<Rightarrow> world \<Rightarrow> error option \<times> nat option \<times> world"
  x_run_if_refresh :: "job \<Rightarrow> world \<Rightarrow> outcome"
  x_run_if_busy :: "job \<Rightarrow> world \<Rightarrow> outcome"
  x_before_successor_calc :: "job \<Rightarrow> job \<Rightarrow> world \<Rightarrow> error option \<times> job \<times> job \<times> world"
  x_check_if_job_exists :: "job \<Rightarrow> world \<Rightarrow> bool"
  x_check_output :: "job \<Rightarrow> world \<Rightarrow> proc_result \<times> world"
  x_popen :: "job \<Rightarrow> world \<Rightarrow> proc_result"
  x_return_job_id :: "job \<Rightarrow> bool"
  x_submit :: "job \<Rightarrow> nat option \<Rightarrow> world \<Rightarrow> proc_result"
  x_queue_job_info_is_None :: "job \<Rightarrow> world \<Rightarrow> bool"
  x_communicate :: "job \<Rightarrow> world \<Rightarrow> world"

text \<open>What \<^verbatim>\<open>GenericJob\<close> itself has for the methods left to derived classes.\<close>

definition GenericJob_write_input :: "job \<Rightarrow> world \<Rightarrow> outcome" where
  "GenericJob_write_input j w =
     (Some (NotImplementedError ''write procedure must be defined for derived Hamilton!''), j, w)"

definition GenericJob_collect_output :: "job \<Rightarrow> world \<Rightarrow> outcome" where
  "GenericJob_collect_output j w =
     (Some (NotImplementedError ''read procedure must be defined for derived Hamilton!''), j, w)"

definition GenericJob_collect_logfiles :: "job \<Rightarrow> world \<Rightarrow> outcome" where
  "GenericJob_collect_logfiles j w =
     (Some (NotImplementedError ''collect_logfiles() should be implemented in the derived class''), j, w)"

definition GenericJob_run_if_lib :: "job \<Rightarrow> world \<Rightarrow> error option \<times> nat option \<times> world" where
  "GenericJob_run_if_lib j w =
     (Some (NotImplementedError ''This function needs to be implemented in the specific class.''), None, w)"

definition GenericJob_run_if_refresh :: "job \<Rightarrow> world \<Rightarrow> outcome" where
  "GenericJob_run_if_refresh j w =
     (Some (NotImplementedError ''Refresh is not supported for this job type for job  ''), j, w)"

definition GenericJob_before_successor_calc ::
  "job \<Rightarrow> job \<Rightarrow> world \<Rightarrow> error option \<times> job \<times> job \<times> world" where
  "GenericJob_before_successor_calc j ham w = (None, j, ham, w)"



section \<open>GenericJob\<close>

subsection \<open>Status refresh and the abort drop\<close>

text \<open>
  \<^verbatim>\<open>
  def refresh_job_status(self):
      if self.job_id:
          self._status = JobStatus(initial_status=self.project.db.get_item_by_id(self.job_id)["status"],
                                   db=self.project.db, job_id=self.job_id)
  \<close>
\<close>

definition refresh_job_status :: "job \<Rightarrow> world \<Rightarrow> outcome" where
  "refresh_job_status j w =
     (case job_id j of
        None \<Rightarrow> (None, j, w)
      | Some i \<Rightarrow>
          if i = 0 then (None, j, w)
          else (case get_item_by_id w i of
                  Inl e \<Rightarrow> (Some e, j, w)
                | Inr r \<Rightarrow> (None, j\<lparr>status_string := r_status r, status_job_id := Some i\<rparr>, w)))"

text \<open>
  \<^verbatim>\<open>
  def drop_status_to_aborted(self):
      self.refresh_job_status()
      if not (self.status.finished or self.status.suspended):
          self.status.aborted = True
  \<close>
\<close>

definition drop_status_to_aborted :: "job \<Rightarrow> world \<Rightarrow> outcome" where
  "drop_status_to_aborted j w =
     (case refresh_job_status j w of
        (Some e, j1, w1) \<Rightarrow> (Some e, j1, w1)
      | (None, j1, w1) \<Rightarrow>
          if \<not> (status_string j1 = ''finished'' \<or> status_string j1 = ''suspended'')
          then (case set_status ''aborted'' j1 w1 of (j2, w2) \<Rightarrow> (None, j2, w2))
          else (None, j1, w1))"

text \<open>
  \<^verbatim>\<open>
  intercepted_signals=[signal.SIGINT, signal.SIGTERM, signal.SIGABRT] #, signal.SIGQUIT]
  \<close>
\<close>

datatype signal = SIGINT | SIGTERM | SIGABRT | SIGQUIT | SIGHUP





text \<open>\<^verbatim>\<open>reset_job_id(self, job_id=None)\<close>: the id and a fresh status object.\<close>

definition reset_job_id :: "nat option \<Rightarrow> job \<Rightarrow> job" where
  "reset_job_id i j = j\<lparr>job_id := i, status_string := ''initialized'', status_job_id := i\<rparr>"

subsection \<open>The restart file list\<close>

text \<open>
  \<^verbatim>\<open>
  @property
  def restart_file_list(self):
      return self._restart_file_list

  @restart_file_list.setter
  def restart_file_list(self, filenames):
      for f in filenames:
          try:
              assert(os.path.isfile(f))
              self.restart_file_list.append(f)
          except AssertionError:
              raise IOError("File: {} does not exist".format(f))
  \<close>
  The getter hands out the list object itself, so what is assigned is either another
  list or the job's own list object (as in \<^verbatim>\<open>job.restart_file_list += [...]\<close>, which
  extends the list in place and then assigns it). The loop reads the assigned list by
  position while the job's list grows; with the job's own list these are one object.
  \<open>current_list\<close> is what the assigned object holds at the moment it is read. The
  result \<open>None\<close> says that the assignment does not return.
\<close>

datatype assigned = Other_list "string list" | Own_list

definition current_list :: "assigned \<Rightarrow> job \<Rightarrow> string list" where
  "current_list filenames j =
     (case filenames of Other_list fs \<Rightarrow> fs | Own_list \<Rightarrow> restart_file_list j)"

partial_function (option) setter_from :: "nat \<Rightarrow> assigned \<Rightarrow> job \<Rightarrow> world \<Rightarrow> outcome option" where
  "setter_from i filenames j w =
     (if i < length (current_list filenames j) then
        (if isfile w (current_list filenames j ! i)
         then setter_from (Suc i) filenames
                (j\<lparr>restart_file_list := restart_file_list j @ [current_list filenames j ! i]\<rparr>) w
         else Some (Some (IOError (''File: '' @ current_list filenames j ! i @ '' does not exist'')),
                    j, w))
      else Some (None, j, w))"

definition restart_file_list_setter :: "assigned \<Rightarrow> job \<Rightarrow> world \<Rightarrow> outcome option" where
  "restart_file_list_setter filenames j w = setter_from 0 filenames j w"

text \<open>
  \<^verbatim>\<open>
  def _copy_restart_files(self):
      try:
          assert (os.path.isdir(self.working_directory))
      except AssertionError:
          raise ValueError("The working directory is not yet available to copy restart files")
      for f in self.restart_file_list:
          shutil.copy(f, self.working_directory)
  \<close>
\<close>

fun copy_all :: "string list \<Rightarrow> string \<Rightarrow> world \<Rightarrow> error option \<times> world" where
  "copy_all [] d w = (None, w)"
| "copy_all (f # fs) d w =
     (case shutil_copy f d w of Inl e \<Rightarrow> (Some e, w) | Inr w1 \<Rightarrow> copy_all fs d w1)"

definition copy_restart_files :: "job \<Rightarrow> world \<Rightarrow> outcome" where
  "copy_restart_files j w =
     (if \<not> isdir w (working_directory j)
      then (Some (ValueError ''The working directory is not yet available to copy restart files''), j, w)
      else (case copy_all (restart_file_list j) (working_directory j) w of (e, w1) \<Rightarrow> (e, j, w1)))"

subsection \<open>Saving\<close>

definition db_entry :: "job \<Rightarrow> db_row" where
  "db_entry j =
     \<lparr>r_job = job_name j, r_status = status_string j,
      r_masterid = master_id j, r_parentid = parent_id j\<rparr>"

text \<open>
  \<^verbatim>\<open>
  def save(self):
      self.to_hdf()
      job_id = self.project.db.add_item_dict(self.db_entry())
      self._job_id = job_id
      self.refresh_job_status()
      return job_id
  \<close>
\<close>

definition save :: "job \<Rightarrow> world \<Rightarrow> outcome" where
  "save j w =
     (case add_item_dict (db_entry j) (to_hdf j w) of
        (i, w1) \<Rightarrow> refresh_job_status (j\<lparr>job_id := Some i\<rparr>) w1)"

text \<open>\<^verbatim>\<open>_write_run_wrapper\<close> writes \<^verbatim>\<open>run_job.py\<close> into the working directory.\<close>

definition write_run_wrapper :: "bool \<Rightarrow> job \<Rightarrow> world \<Rightarrow> outcome" where
  "write_run_wrapper dbg j w =
     (case write_file (working_directory j) ''run_job.py''
             (RunWrapper (working_directory j) (job_id j) dbg) w of
        Inl e \<Rightarrow> (Some e, j, w)
      | Inr w1 \<Rightarrow> (None, j, w1))"

text \<open>\<^verbatim>\<open>project_hdf5.create_working_directory()\<close>.\<close>

definition create_working_directory :: "job \<Rightarrow> world \<Rightarrow> world" where
  "create_working_directory j w =
     (if isdir w (working_directory j) then w else w\<lparr>dirs := working_directory j # dirs w\<rparr>)"

subsection \<open>The arguments of run\<close>

record run_args =
  run_again :: bool
  repair :: bool
  debug :: bool
  run_mode_arg :: "runmode option"
  que_wait_for :: "nat option"

definition default_args :: run_args where
  "default_args =
     \<lparr>run_again = False, repair = False, debug = False, run_mode_arg = None, que_wait_for = None\<rparr>"

type_synonym runner = "run_args \<Rightarrow> job \<Rightarrow> world \<Rightarrow> outcome option"

subsection \<open>The master wake protocol\<close>

text \<open>
  \<^verbatim>\<open>
  def update_master(self):
      master_id = self.master_id
      if master_id is not None:
          if self.project.db.get_item_by_id(master_id)['status'] == 'suspended':
              self.project.db.item_update({'status': 'refresh'}, master_id)
              master_job = self.project.load(master_id)
              master_job._run_if_refresh()
              if self.server.run_mode.thread and master_job._process:
                  master_job._process.communicate()
              if self.project.db.get_item_by_id(master_id)['status'] == 'busy':
                  self.project.db.item_update({'status': 'suspended'}, master_id)
                  self.update_master()
          elif self.project.db.get_item_by_id(master_id)['status'] == 'refresh':
              self.project.db.item_update({'status': 'busy'}, master_id)
  \<close>
  One pass through the body either ends the call, with a result, or reaches
  \<^verbatim>\<open>self.update_master()\<close>, with the world in which the method starts again. The
  first argument of \<open>update_master\<close> bounds the depth of that recursion.
\<close>

definition update_master_pass :: "ext \<Rightarrow> job \<Rightarrow> world \<Rightarrow> outcome + world" where
  "update_master_pass x j w =
     (case master_id j of
        None \<Rightarrow> Inl (None, j, w)
      | Some m \<Rightarrow>
          (case get_item_by_id w m of
             Inl e \<Rightarrow> Inl (Some e, j, w)
           | Inr r \<Rightarrow>
               if r_status r = ''suspended'' then
                 (let w1 = item_update_status ''refresh'' m w in
                  case load m w1 of
                    Inl e \<Rightarrow> Inl (Some e, j, w1)
                  | Inr master_job \<Rightarrow>
                      (case x_run_if_refresh x master_job w1 of
                         (Some e, master_job2, w2) \<Rightarrow> Inl (Some e, j, w2)
                       | (None, master_job2, w2) \<Rightarrow>
                           (let w3 = (if rm_thread (run_mode j) \<and> has_process master_job2
                                      then x_communicate x master_job2 w2 else w2)
                            in case get_item_by_id w3 m of
                                 Inl e \<Rightarrow> Inl (Some e, j, w3)
                               | Inr r3 \<Rightarrow>
                                   if r_status r3 = ''busy''
                                   then Inr (item_update_status ''suspended'' m w3)
                                   else Inl (None, j, w3))))
               else (case get_item_by_id w m of
                       Inl e \<Rightarrow> Inl (Some e, j, w)
                     | Inr r' \<Rightarrow>
                         if r_status r' = ''refresh''
                         then Inl (None, j, item_update_status ''busy'' m w)
                         else Inl (None, j, w))))"

fun update_master :: "nat \<Rightarrow> ext \<Rightarrow> job \<Rightarrow> world \<Rightarrow> outcome option" where
  "update_master 0 x j w = None"
| "update_master (Suc n) x j w =
     (case update_master_pass x j w of
        Inl res \<Rightarrow> Some res
      | Inr w' \<Rightarrow> update_master n x j w')"

subsection \<open>The parent chain\<close>

text \<open>
  \<^verbatim>\<open>
  def _calculate_predecessor(self):
      parent_id = self.parent_id
      if parent_id is not None:
          if self._hdf5.db.get_item_by_id(parent_id)['status'] in ['initialized', 'created']:
              self.status.suspended = True
              parent_job = self._hdf5.load(parent_id)
              parent_job.run()
  \<close>
\<close>

definition calculate_predecessor :: "runner \<Rightarrow> job \<Rightarrow> world \<Rightarrow> outcome option" where
  "calculate_predecessor rec j w =
     (case parent_id j of
        None \<Rightarrow> ok j w
      | Some p \<Rightarrow>
          (case get_item_by_id w p of
             Inl e \<Rightarrow> raises e j w
           | Inr r \<Rightarrow>
               if r_status r = ''initialized'' \<or> r_status r = ''created'' then
                 (case set_status ''suspended'' j w of
                    (j1, w1) \<Rightarrow>
                      (case load p w1 of
                         Inl e \<Rightarrow> raises e j1 w1
                       | Inr parent_job \<Rightarrow>
                           seq_other (rec default_args parent_job w1) j1 (\<lambda>w2. ok j1 w2)))
               else ok j w))"

text \<open>
  \<^verbatim>\<open>
  def _calculate_successor(self):
      for child_id in sorted([job["id"] for job in self.project.db.get_items_dict({'parentid': str(self.job_id)},
                                                                                  return_all_columns=False)]):
          if self._hdf5.db.get_item_by_id(child_id)['status'] in ['suspended']:
              child = self._hdf5.load(child_id)
              child.status.created = True
              self._before_successor_calc(child)
              child.run()
  \<close>
  The body of the loop for one child, and the loop.
\<close>

definition wake_child :: "ext \<Rightarrow> runner \<Rightarrow> nat \<Rightarrow> job \<Rightarrow> world \<Rightarrow> outcome option" where
  "wake_child x rec child_id j w =
     (case get_item_by_id w child_id of
        Inl e \<Rightarrow> raises e j w
      | Inr r \<Rightarrow>
          if r_status r = ''suspended'' then
            (case load child_id w of
               Inl e \<Rightarrow> raises e j w
             | Inr child \<Rightarrow>
                 (case set_status ''created'' child w of
                    (child1, w1) \<Rightarrow>
                      (case x_before_successor_calc x j child1 w1 of
                         (Some e, j2, child2, w2) \<Rightarrow> raises e j2 w2
                       | (None, j2, child2, w2) \<Rightarrow>
                           seq_other (rec default_args child2 w2) j2 (\<lambda>w3. ok j2 w3))))
          else ok j w)"

fun successor_loop :: "ext \<Rightarrow> runner \<Rightarrow> nat list \<Rightarrow> job \<Rightarrow> world \<Rightarrow> outcome option" where
  "successor_loop x rec [] j w = ok j w"
| "successor_loop x rec (child_id # rest) j w =
     seq (wake_child x rec child_id j w) (successor_loop x rec rest)"

definition calculate_successor :: "ext \<Rightarrow> runner \<Rightarrow> job \<Rightarrow> world \<Rightarrow> outcome option" where
  "calculate_successor x rec j w =
     successor_loop x rec (sort (get_items_dict_parentid (job_id j) w)) j w"



subsection \<open>Job creation\<close>

text \<open>
  \<^verbatim>\<open>
  def _create_job_structure(self, debug=False):
      self.project_hdf5.create_working_directory()
      self._copy_restart_files()
      self.write_input()
      self._job_id = self.save()
      print(...)
      self._write_run_wrapper(debug=debug)
      self.status.created = True
      self._calculate_predecessor()
  \<close>
\<close>

definition create_job_structure :: "ext \<Rightarrow> runner \<Rightarrow> bool \<Rightarrow> job \<Rightarrow> world \<Rightarrow> outcome option" where
  "create_job_structure x rec dbg j w =
     seq (Some (copy_restart_files j (create_working_directory j w))) (\<lambda>j1 w1.
     seq (Some (x_write_input x j1 w1)) (\<lambda>j2 w2.
     seq (Some (save j2 w2)) (\<lambda>j3 w3.
     seq (Some (write_run_wrapper dbg j3 w3)) (\<lambda>j4 w4.
     (case set_status ''created'' j4 w4 of
        (j5, w5) \<Rightarrow> calculate_predecessor rec j5 w5)))))"

text \<open>
  \<^verbatim>\<open>
  def _run_if_new(self, debug=False, que_wait_for=None):
      if self.check_if_job_exists():
          print('job exists already and therefore was not created!')
      elif self._lib['available'] and self._lib['enabled']:
          self._job_id = self.run_if_lib()
          self.refresh_job_status()
          self.status.finished = True
          print(...)
          self.run()
      else:
          self._create_job_structure(debug=debug)
          self.run(que_wait_for=que_wait_for)
  \<close>
\<close>

definition run_if_new :: "ext \<Rightarrow> runner \<Rightarrow> bool \<Rightarrow> nat option \<Rightarrow> job \<Rightarrow> world \<Rightarrow> outcome option" where
  "run_if_new x rec dbg qwf j w =
     (if x_check_if_job_exists x j w then ok j w
      else if lib_available j \<and> lib_enabled j then
        (case x_run_if_lib x j w of
           (Some e, i, w1) \<Rightarrow> raises e j w1
         | (None, i, w1) \<Rightarrow>
             seq (Some (refresh_job_status (j\<lparr>job_id := i\<rparr>) w1)) (\<lambda>j2 w2.
             (case set_status ''finished'' j2 w2 of
                (j3, w3) \<Rightarrow> rec default_args j3 w3)))
      else
        seq (create_job_structure x rec dbg j w) (\<lambda>j1 w1.
        rec (default_args\<lparr>que_wait_for := qwf\<rparr>) j1 w1))"

subsection \<open>The execution strategies\<close>

text \<open>
  \<^verbatim>\<open>
  def run_if_modal(self):
      self.status.running = True
      self.project.db.item_update({"timestart": datetime.now()}, self.job_id)
      try:
          ... out = subprocess.check_output(...)
      except subprocess.CalledProcessError as e:
          self.status.aborted = True
          error_file = posixpath.join(self.project_hdf5.working_directory, "error.msg")
          with open(error_file, "w") as f:
              f.write(e.output)
          if self.server.run_mode.non_modal:
              s.close_connection()
          raise RuntimeError("Job aborted")
      self.status.collect = True
      self.run()
  \<close>
  The time columns of the table are not part of the model.
\<close>

definition run_if_modal :: "ext \<Rightarrow> runner \<Rightarrow> job \<Rightarrow> world \<Rightarrow> outcome option" where
  "run_if_modal x rec j w =
     (case set_status ''running'' j w of
        (j1, w1) \<Rightarrow>
          (case x_check_output x j1 w1 of
             (ProcRaises e, w2) \<Rightarrow> raises e j1 w2
           | (CalledProcessError output, w2) \<Rightarrow>
               (case set_status ''aborted'' j1 w2 of
                  (j3, w3) \<Rightarrow>
                    (case write_file (working_directory j3) ''error.msg'' (Text output) w3 of
                       Inl e \<Rightarrow> raises e j3 w3
                     | Inr w4 \<Rightarrow> raises (RuntimeError ''Job aborted'') j3 w4))
           | (Completed out, w2) \<Rightarrow>
               (case set_status ''collect'' j1 w2 of
                  (j3, w3) \<Rightarrow> rec default_args j3 w3)))"

text \<open>
  \<^verbatim>\<open>
  def run_if_non_modal(self):
      try:
          file_name = posixpath.join(self.project_hdf5.working_directory, "run_job.py")
          with open(posixpath.join(self.project_hdf5.working_directory, 'out.txt'), mode='w') as f_out:
              with open(posixpath.join(self.project_hdf5.working_directory, 'error.txt'), mode='w') as f_err:
                  self._process = subprocess.Popen(['python', file_name], ...)
      except subprocess.CalledProcessError as e:
          self.status.aborted = True
          raise ValueError("run_job.py crashed")
  \<close>
  What the launched process does afterwards happens in another process.
\<close>

definition run_if_non_modal :: "ext \<Rightarrow> job \<Rightarrow> world \<Rightarrow> outcome option" where
  "run_if_non_modal x j w =
     (case write_file (working_directory j) ''out.txt'' (Text []) w of
        Inl e \<Rightarrow> raises e j w
      | Inr w1 \<Rightarrow>
          (case write_file (working_directory j) ''error.txt'' (Text []) w1 of
             Inl e \<Rightarrow> raises e j w1
           | Inr w2 \<Rightarrow>
               (case x_popen x j w2 of
                  ProcRaises e \<Rightarrow> raises e j w2
                | CalledProcessError output \<Rightarrow>
                    (case set_status ''aborted'' j w2 of
                       (j3, w3) \<Rightarrow> raises (ValueError ''run_job.py crashed'') j3 w3)
                | Completed out \<Rightarrow> ok (j\<lparr>has_process := True\<rparr>) w2)))"

text \<open>\<^verbatim>\<open>run_if_manually\<close> prints how to start the job by hand.\<close>

definition run_if_manually :: "job \<Rightarrow> world \<Rightarrow> outcome option" where
  "run_if_manually j w = ok j w"

text \<open>
  \<^verbatim>\<open>
  def run_if_scheduler(self, que_wait_for=None):
      queue_options, return_job_id = self.server.init_scheduler_run(...)
      que_id = None
      try:
          p = subprocess.Popen(queue_options, stdout=subprocess.PIPE, universal_newlines=True)
          if return_job_id:
              self.server.queue_id = p.communicate()[0]
              que_id = self.server.queue_id
              self._server.to_hdf(self._hdf5)
      except subprocess.CalledProcessError as e:
          self.status.aborted = True
          raise ValueError("run_queue.sh crashed")
      return que_id
  \<close>
\<close>

definition run_if_scheduler :: "ext \<Rightarrow> nat option \<Rightarrow> job \<Rightarrow> world \<Rightarrow> outcome option" where
  "run_if_scheduler x qwf j w =
     (case x_submit x j qwf w of
        ProcRaises e \<Rightarrow> raises e j w
      | CalledProcessError output \<Rightarrow>
          (case set_status ''aborted'' j w of
             (j1, w1) \<Rightarrow> raises (ValueError ''run_queue.sh crashed'') j1 w1)
      | Completed out \<Rightarrow>
          if x_return_job_id x j
          then (let j1 = j\<lparr>queue_id := Some out\<rparr> in ok j1 (to_hdf j1 w))
          else ok j w)"

text \<open>
  \<^verbatim>\<open>
  def _run_if_created(self, que_wait_for=None):
      self.status.submitted = True
      if self.server.run_mode.manual:
          self.run_if_manually()
      elif self.server.run_mode.modal:
          self.run_if_modal()
      elif self.server.run_mode.non_modal or self.server.run_mode.thread:
          self.run_if_non_modal()
      elif self.server.run_mode.queue:
          return self.run_if_scheduler(que_wait_for)
      return None
  \<close>
\<close>

definition run_if_created :: "ext \<Rightarrow> runner \<Rightarrow> nat option \<Rightarrow> job \<Rightarrow> world \<Rightarrow> outcome option" where
  "run_if_created x rec qwf j w =
     (case set_status ''submitted'' j w of
        (j1, w1) \<Rightarrow>
          if run_mode j1 = Manual then run_if_manually j1 w1
          else if run_mode j1 = Modal then run_if_modal x rec j1 w1
          else if run_mode j1 = NonModal \<or> rm_thread (run_mode j1) then run_if_non_modal x j1 w1
          else if run_mode j1 = Queue then run_if_scheduler x qwf j1 w1
          else ok j1 w1)"

subsection \<open>The handlers of the remaining statuses\<close>

text \<open>
  \<^verbatim>\<open>
  def _run_if_submitted(self):
      if self.server.run_mode.queue and self.project.queue_job_info(self) is None:
          self.run(run_again=True)
      else:
          print(...)
  \<close>
  \<^verbatim>\<open>_run_if_running\<close> has the same body.
\<close>

definition run_if_submitted :: "ext \<Rightarrow> runner \<Rightarrow> job \<Rightarrow> world \<Rightarrow> outcome option" where
  "run_if_submitted x rec j w =
     (if run_mode j = Queue \<and> x_queue_job_info_is_None x j w
      then rec (default_args\<lparr>run_again := True\<rparr>) j w
      else ok j w)"

definition run_if_running :: "ext \<Rightarrow> runner \<Rightarrow> job \<Rightarrow> world \<Rightarrow> outcome option" where
  "run_if_running x rec j w =
     (if run_mode j = Queue \<and> x_queue_job_info_is_None x j w
      then rec (default_args\<lparr>run_again := True\<rparr>) j w
      else ok j w)"

text \<open>\<^verbatim>\<open>_runtime\<close> reads the start time from the job's row; the update of the time
  columns changes nothing the model holds.\<close>

definition runtime_update :: "job \<Rightarrow> world \<Rightarrow> outcome" where
  "runtime_update j w =
     (case job_id j of
        None \<Rightarrow> (Some (OtherException ''NoneType''), j, w)
      | Some i \<Rightarrow>
          (case get_item_by_id w i of
             Inl e \<Rightarrow> (Some e, j, w)
           | Inr r \<Rightarrow> (None, j, w)))"

text \<open>
  \<^verbatim>\<open>
  def _run_if_collect(self):
      self.collect_output()
      self.collect_logfiles()
      self.project.db.item_update(self._runtime(), self.job_id)
      self.status.finished = True
      self.update_master()
      self._calculate_successor()
      self.send_to_database()
  \<close>
\<close>

definition run_if_collect :: "nat \<Rightarrow> ext \<Rightarrow> runner \<Rightarrow> job \<Rightarrow> world \<Rightarrow> outcome option" where
  "run_if_collect n x rec j w =
     seq (Some (x_collect_output x j w)) (\<lambda>j1 w1.
     seq (Some (x_collect_logfiles x j1 w1)) (\<lambda>j2 w2.
     seq (Some (runtime_update j2 w2)) (\<lambda>j3 w3.
     (case set_status ''finished'' j3 w3 of
        (j4, w4) \<Rightarrow>
          seq (update_master n x j4 w4) (\<lambda>j5 w5.
          calculate_successor x rec j5 w5)))))"

text \<open>
  \<^verbatim>\<open>
  def _run_if_suspended(self):
      self.status.refresh = True
      self.run()
  \<close>
\<close>

definition run_if_suspended :: "runner \<Rightarrow> job \<Rightarrow> world \<Rightarrow> outcome option" where
  "run_if_suspended rec j w =
     (case set_status ''refresh'' j w of (j1, w1) \<Rightarrow> rec default_args j1 w1)"

text \<open>
  \<^verbatim>\<open>
  def _run_if_finished(self, run_again=False):
      if run_again:
          parent_id = self.parent_id
          self.parent_id = None
          self.remove()
          self._job_id = None
          self.status.initialized = True
          self.parent_id = parent_id
          self.run()
      else:
          self.from_hdf()
          self.update_master()
  \<close>
\<close>

definition run_if_finished :: "nat \<Rightarrow> ext \<Rightarrow> runner \<Rightarrow> bool \<Rightarrow> job \<Rightarrow> world \<Rightarrow> outcome option" where
  "run_if_finished n x rec again j w =
     (if again then
        (let parent_id0 = parent_id j in
         case set_parent_id None j w of
           (j1, w1) \<Rightarrow>
             seq (Some (remove j1 w1)) (\<lambda>j2 w2.
             (case set_status ''initialized'' (j2\<lparr>job_id := None\<rparr>) w2 of
                (j3, w3) \<Rightarrow>
                  (case set_parent_id parent_id0 j3 w3 of
                     (j4, w4) \<Rightarrow> rec default_args j4 w4))))
      else
        seq (Some (from_hdf j w)) (\<lambda>j1 w1. update_master n x j1 w1))"

subsection \<open>The dispatcher\<close>

text \<open>The reset of \<^verbatim>\<open>run(run_again=True)\<close>:
  \<^verbatim>\<open>
  master_id, parent_id = self.master_id, self.parent_id
  self.remove()
  self.reset_job_id()
  self.master_id, self.parent_id = master_id, parent_id
  \<close>
\<close>

definition run_again_reset :: "job \<Rightarrow> world \<Rightarrow> outcome" where
  "run_again_reset j w =
     (let master_id0 = master_id j; parent_id0 = parent_id j in
      case remove j w of
        (Some e, j1, w1) \<Rightarrow> (Some e, j1, w1)
      | (None, j1, w1) \<Rightarrow>
          (case set_master_id master_id0 (reset_job_id None j1) w1 of
             (j2, w2) \<Rightarrow>
               (case set_parent_id parent_id0 j2 w2 of
                  (j3, w3) \<Rightarrow> (None, j3, w3))))"

text \<open>
  The body of the \<^verbatim>\<open>try\<close> block of \<^verbatim>\<open>run\<close>; \<open>status\<close> is the local variable,
  \<open>with_run_mode\<close> the assignment of the run mode that was passed, if one was.
  \<^verbatim>\<open>
  self.validate_ready_to_run()
  status = self.status.string
  if run_mode:
      self.server.run_mode = run_mode
  if run_again and self.job_id:
      status = 'initialized'
      ...
  if repair and self.job_id and not self.status.finished:
      status = 'created'
  if status == 'initialized':
      self._run_if_new(debug=debug, que_wait_for=que_wait_for)
  elif status == 'created':
      que_id = self._run_if_created(que_wait_for=que_wait_for)
  elif status == 'submitted':
      self._run_if_submitted()
  elif status == 'running':
      self._run_if_running()
  elif status == 'collect':
      self._run_if_collect()
  elif status == 'suspend':
      self._run_if_suspended()
  elif status == 'refresh':
      self._run_if_refresh()
  elif status == 'busy':
      self._run_if_busy()
  elif status == 'finished':
      self._run_if_finished(run_again=run_again)
  \<close>
\<close>

definition dispatch :: "nat \<Rightarrow> ext \<Rightarrow> runner \<Rightarrow> run_args \<Rightarrow> string \<Rightarrow> job \<Rightarrow> world \<Rightarrow> outcome option" where
  "dispatch n x rec a status j w =
     (if status = ''initialized'' then run_if_new x rec (debug a) (que_wait_for a) j w
      else if status = ''created'' then run_if_created x rec (que_wait_for a) j w
      else if status = ''submitted'' then run_if_submitted x rec j w
      else if status = ''running'' then run_if_running x rec j w
      else if status = ''collect'' then run_if_collect n x rec j w
      else if status = ''suspend'' then run_if_suspended rec j w
      else if status = ''refresh'' then Some (x_run_if_refresh x j w)
      else if status = ''busy'' then Some (x_run_if_busy x j w)
      else if status = ''finished'' then run_if_finished n x rec (run_again a) j w
      else ok j w)"

definition with_run_mode :: "run_args \<Rightarrow> job \<Rightarrow> job" where
  "with_run_mode a j = (case run_mode_arg a of None \<Rightarrow> j | Some m \<Rightarrow> j\<lparr>run_mode := m\<rparr>)"

definition run_body :: "nat \<Rightarrow> ext \<Rightarrow> runner \<Rightarrow> run_args \<Rightarrow> job \<Rightarrow> world \<Rightarrow> outcome option" where
  "run_body n x rec a j w =
     (let status = status_string j;
          j1 = with_run_mode a j
      in
      seq (if run_again a \<and> truthy (job_id j1) then Some (run_again_reset j1 w) else ok j1 w)
        (\<lambda>j2 w2.
           (let status1 = (if run_again a \<and> truthy (job_id j1) then ''initialized'' else status);
                status2 = (if repair a \<and> truthy (job_id j2) \<and> status_string j2 \<noteq> ''finished''
                           then ''created'' else status1)
            in dispatch n x rec a status2 j2 w2)))"

text \<open>
  The three \<^verbatim>\<open>except\<close> clauses of \<^verbatim>\<open>run\<close> (\<^verbatim>\<open>Exception\<close>,
  \<^verbatim>\<open>KeyboardInterrupt\<close>, \<^verbatim>\<open>SystemExit\<close>) have one body:
  \<^verbatim>\<open>
  self.drop_status_to_aborted()
  raise
  \<close>
  An exception of the handler itself replaces the one being handled.
\<close>

definition run_except :: "outcome option \<Rightarrow> outcome option" where
  "run_except m =
     (case m of
        None \<Rightarrow> None
      | Some (None, j, w) \<Rightarrow> Some (None, j, w)
      | Some (Some e, j, w) \<Rightarrow>
          (case drop_status_to_aborted j w of
             (None, j1, w1) \<Rightarrow> Some (Some e, j1, w1)
           | (Some e1, j1, w1) \<Rightarrow> Some (Some e1, j1, w1)))"

text \<open>\<^verbatim>\<open>run\<close>: the first argument bounds the depth of the calls of \<^verbatim>\<open>run\<close> and
  \<^verbatim>\<open>update_master\<close> inside one another.\<close>

fun run :: "nat \<Rightarrow> ext \<Rightarrow> run_args \<Rightarrow> job \<Rightarrow> world \<Rightarrow> outcome option" where
  "run 0 x a j w = None"
| "run (Suc n) x a j w =
     run_except (run_body n x (\<lambda>a' j' w'. run n x a' j' w') a j w)"

text \<open>Calling \<^verbatim>\<open>run\<close> \<open>k\<close> times in a row on the same object.\<close>

fun run_repeatedly :: "nat \<Rightarrow> nat \<Rightarrow> ext \<Rightarrow> run_args \<Rightarrow> job \<Rightarrow> world \<Rightarrow> outcome option" where
  "run_repeatedly 0 n x a j w = ok j w"
| "run_repeatedly (Suc k) n x a j w = seq (run n x a j w) (run_repeatedly k n x a)"

section \<open>Queue reconciliation\<close>

text \<open>What \<^verbatim>\<open>queue_id_table(job_id)\<close> did: it raised, or it returned
  \<^verbatim>\<open>None\<close>, or a dictionary from a key to a pair of queue id and queue state.\<close>

datatype queue_reply =
    QueueRaises error
  | QueueNone
  | QueueTable "(string \<times> string \<times> string) list"

text \<open>The loop over \<^verbatim>\<open>queue_status.items()\<close>.\<close>

fun abort_not_running :: "(string \<times> string \<times> string) list \<Rightarrow> nat \<Rightarrow> world \<Rightarrow> world" where
  "abort_not_running [] i w = w"
| "abort_not_running ((key, q_id, q_status) # rest) i w =
     abort_not_running rest i
       (if q_status \<noteq> ''r'' then item_update_status ''aborted'' i w else w)"

text \<open>
  \<^verbatim>\<open>
  def refresh_job_status_based_on_job_id(self, job_id, que_mode=True):
      if job_id:
          if (not que_mode and self.db.get_item_by_id(job_id)['status'] not in ['finished']) or (
                      que_mode and self.db.get_item_by_id(job_id)['status'] in ['running', 'submitted']):
              try:
                  queue_status = queue_id_table(job_id)
              except Exception:
                  queue_status = None
              if queue_status:
                  for key, (q_id, q_status) in queue_status.items():
                      if q_status != 'r':
                          self.db.item_update({'status': 'aborted'}, job_id)
              else:
                  self.db.item_update({'status': 'aborted'}, job_id)
  \<close>
  The result is the exception raised, if any, and the world left behind.
\<close>

definition refresh_job_status_based_on_job_id ::
  "(nat \<Rightarrow> queue_reply) \<Rightarrow> nat option \<Rightarrow> bool \<Rightarrow> world \<Rightarrow> error option \<times> world" where
  "refresh_job_status_based_on_job_id queue_id_table jid que_mode w =
     (case jid of
        None \<Rightarrow> (None, w)
      | Some i \<Rightarrow>
          if i = 0 then (None, w)
          else (case get_item_by_id w i of
                  Inl e \<Rightarrow> (Some e, w)
                | Inr r \<Rightarrow>
                    if (\<not> que_mode \<and> r_status r \<noteq> ''finished'') \<or>
                       (que_mode \<and> (r_status r = ''running'' \<or> r_status r = ''submitted''))
                    then (case queue_id_table i of
                            QueueRaises e \<Rightarrow>
                              if is_Exception e then (None, item_update_status ''aborted'' i w)
                              else (Some e, w)
                          | QueueNone \<Rightarrow> (None, item_update_status ''aborted'' i w)
                          | QueueTable [] \<Rightarrow> (None, item_update_status ''aborted'' i w)
                          | QueueTable (entry # rest) \<Rightarrow>
                              (None, abort_not_running (entry # rest) i w))
                    else (None, w)))"

section \<open>Example objects\<close>

text \<open>A job object as its constructor leaves it, and a world with nothing in it.\<close>

definition new_job :: "string \<Rightarrow> string \<Rightarrow> job" where
  "new_job name wd =
     \<lparr>job_id = None, job_name = name, status_string = ''initialized'', status_job_id = None,
      master_id = None, parent_id = None, run_mode = Modal, queue_id = None,
      restart_file_list = [], lib_available = False, lib_enabled = False,
      has_process = False, working_directory = wd\<rparr>"

definition empty_world :: world where
  "empty_world = \<lparr>db = [], next_id = 1, files = Map.empty, dirs = [], hdf = Map.empty\<rparr>"

definition row :: "string \<Rightarrow> string \<Rightarrow> nat option \<Rightarrow> nat option \<Rightarrow> db_row" where
  "row name s m p = \<lparr>r_job = name, r_status = s, r_masterid = m, r_parentid = p\<rparr>"

definition GenericJob_run_if_busy :: "job \<Rightarrow> world \<Rightarrow> outcome" where
  "GenericJob_run_if_busy j w =
     (Some (NotImplementedError ''Refresh is not supported for this job type for job  ''), j, w)"

text \<open>A derived class that overrides nothing, with a workload that exits with status
  \<open>0\<close>, and \<^verbatim>\<open>check_if_job_exists\<close> looking for the job's name in the table.\<close>

definition example_ext :: ext where
  "example_ext =
     \<lparr>x_write_input = GenericJob_write_input,
      x_collect_output = GenericJob_collect_output,
      x_collect_logfiles = GenericJob_collect_logfiles,
      x_run_if_lib = GenericJob_run_if_lib,
      x_run_if_refresh = GenericJob_run_if_refresh,
      x_run_if_busy = GenericJob_run_if_busy,
      x_before_successor_calc = GenericJob_before_successor_calc,
      x_check_if_job_exists = (\<lambda>j w. job_name j \<in> set (map (\<lambda>(k, r). r_job r) (db w))),
      x_check_output = (\<lambda>j w. (Completed [], w)),
      x_popen = (\<lambda>j w. Completed []),
      x_return_job_id = (\<lambda>j. False),
      x_submit = (\<lambda>j q w. Completed []),
      x_queue_job_info_is_None = (\<lambda>j w. False),
      x_communicate = (\<lambda>j w. w)\<rparr>"

text \<open>A suspended master with two finished children. While the master is serviced for
  the first child, the second child completes and calls \<^verbatim>\<open>update_master\<close> itself;
  serviced again, the master finishes.\<close>

definition child_of :: "string \<Rightarrow> nat \<Rightarrow> nat \<Rightarrow> job" where
  "child_of name i m =
     (new_job name name)\<lparr>job_id := Some i, status_string := ''finished'',
                          status_job_id := Some i, master_id := Some m\<rparr>"

definition master_world :: world where
  "master_world =
     empty_world
       \<lparr>db := [(1, row ''master'' ''suspended'' None None),
               (2, row ''first'' ''finished'' (Some 1) None),
               (3, row ''second'' ''finished'' (Some 1) None)],
        next_id := 4,
        hdf := [''master'' \<mapsto> new_job ''master'' ''master'']\<rparr>"

definition sibling_completes :: "job \<Rightarrow> world \<Rightarrow> outcome" where
  "sibling_completes master_job w =
     (if isfile w ''second_done'' then (None, master_job, item_update_status ''finished'' 1 w)
      else (case update_master (Suc 0) example_ext (child_of ''second'' 3 1) w of
              None \<Rightarrow> (None, master_job, w)
            | Some (e, j, w1) \<Rightarrow>
                (e, master_job, w1\<lparr>files := (files w1)(''second_done'' \<mapsto> Text [])\<rparr>)))"

definition wake_ext :: ext where
  "wake_ext = example_ext\<lparr>x_run_if_refresh := sibling_completes\<rparr>"

definition loaded_master :: job where
  "loaded_master =
     (new_job ''master'' ''master'')\<lparr>job_id := Some 1, status_string := ''refresh'',
                                       status_job_id := Some 1\<rparr>"

text \<open>A job that has a row in the table, and a world holding only that job.\<close>

definition stored_job :: "string \<Rightarrow> nat \<Rightarrow> string \<Rightarrow> job" where
  "stored_job name i s =
     (new_job name name)\<lparr>job_id := Some i, status_string := s, status_job_id := Some i\<rparr>"

definition one_job_world :: "string \<Rightarrow> nat \<Rightarrow> string \<Rightarrow> world" where
  "one_job_world name i s =
     empty_world\<lparr>db := [(i, row name s None None)], next_id := Suc i, dirs := [name],
                  hdf := [name \<mapsto> stored_job name i s]\<rparr>"

text \<open>A derived class whose input and output methods succeed; a finished job with a
  master and a parent, with its row, its working directory and its stored object.\<close>

definition script_ext :: ext where
  "script_ext =
     example_ext\<lparr>x_write_input := (\<lambda>j w. (None, j, w)),
                  x_collect_output := (\<lambda>j w. (None, j, w)),
                  x_collect_logfiles := (\<lambda>j w. (None, j, w))\<rparr>"


definition family_job :: job where
  "family_job = (stored_job ''job'' 5 ''finished'')\<lparr>master_id := Some 9, parent_id := Some 8\<rparr>"

definition family_world :: world where
  "family_world =
     empty_world
       \<lparr>db := [(5, row ''job'' ''finished'' (Some 9) (Some 8)),
               (8, row ''parent'' ''finished'' None None),
               (9, row ''master'' ''finished'' None None)],
        next_id := 10,
        files := [''job/run_job.py'' \<mapsto> RunWrapper ''job'' (Some 5) False,
                  ''job/output'' \<mapsto> Text ''42'', ''notes'' \<mapsto> Text ''keep''],
        dirs := [''job''],
        hdf := [''job'' \<mapsto> family_job]\<rparr>"

text \<open>The same class with a workload that exits non-zero.\<close>

definition failing_ext :: ext where
  "failing_ext = script_ext\<lparr>x_check_output := (\<lambda>j w. (CalledProcessError ''segfault'', w))\<rparr>"

text \<open>A chain: the job \<open>A\<close> is created and waits to be run; the new job \<open>B\<close> has
  \<open>A\<close> as its parent. The second world has both in the table, with the given statuses.\<close>

definition chain_world :: world where
  "chain_world =
     empty_world
       \<lparr>db := [(1, row ''A'' ''created'' None None)], next_id := 2,
        files := [''A/run_job.py'' \<mapsto> RunWrapper ''A'' (Some 1) False],
        dirs := [''A''],
        hdf := [''A'' \<mapsto> stored_job ''A'' 1 ''created'']\<rparr>"

definition chain_child :: job where
  "chain_child = (new_job ''B'' ''B'')\<lparr>parent_id := Some 1\<rparr>"

definition chain_world_saved :: "string \<Rightarrow> string \<Rightarrow> world" where
  "chain_world_saved sa sb =
     chain_world
       \<lparr>db := [(1, row ''A'' sa None None), (2, row ''B'' sb None (Some 1))], next_id := 3,
        dirs := [''B'', ''A''],
        hdf := [''A'' \<mapsto> stored_job ''A'' 1 ''created'', ''B'' \<mapsto> chain_child]\<rparr>"

text \<open>A finished job \<open>A\<close> with two suspended children \<open>B\<close> and \<open>C\<close>, and a
  stand-in for \<^verbatim>\<open>run\<close> that records the job it is called for in a file named after
  the job and, as the run of a sibling may, marks the job with the id \<open>3\<close> finished.\<close>

definition two_children_world :: world where
  "two_children_world =
     empty_world
       \<lparr>db := [(1, row ''A'' ''finished'' None None),
               (2, row ''B'' ''suspended'' None (Some 1)),
               (3, row ''C'' ''suspended'' None (Some 1))],
        next_id := 4,
        hdf := [''A'' \<mapsto> stored_job ''A'' 1 ''finished'', ''B'' \<mapsto> new_job ''B'' ''B'',
                ''C'' \<mapsto> new_job ''C'' ''C'']\<rparr>"

definition sibling_runner :: runner where
  "sibling_runner a j w =
     Some (None, j,
           (item_update_status ''finished'' 3 w)\<lparr>files := (files w)(job_name j \<mapsto> Text [])\<rparr>)"

text \<open>A stand-in for \<^verbatim>\<open>run\<close> that raises at once and reports whether the directory
  \<open>d\<close> exists in the world it is called in.\<close>

definition probe_runner :: "string \<Rightarrow> runner" where
  "probe_runner d a j w =
     Some (Some (OtherException (if isdir w d then ''built'' else ''not built'')), j, w)"

section \<open>Properties of the restart file list\<close>

text \<open>Another list is read to its end or to its first missing entry.\<close>

lemma setter_from_other_list:
  "i \<le> length fs \<Longrightarrow>
   setter_from i (Other_list fs) j w =
     (if list_all (isfile w) (drop i fs)
      then Some (None, j\<lparr>restart_file_list := restart_file_list j @ drop i fs\<rparr>, w)
      else Some (Some (IOError (''File: '' @ hd (dropWhile (isfile w) (drop i fs)) @ '' does not exist'')),
                 j\<lparr>restart_file_list := restart_file_list j @ takeWhile (isfile w) (drop i fs)\<rparr>, w))"
proof (induction "length fs - i" arbitrary: i j)
  case 0
  then have "i = length fs" by simp
  then show ?case by (subst setter_from.simps) (simp add: current_list_def)
next
  case (Suc n)
  then have lt: "i < length fs" by simp
  then have d: "drop i fs = fs ! i # drop (Suc i) fs" by (simp add: Cons_nth_drop_Suc)
  show ?case
  proof (cases "isfile w (fs ! i)")
    case True
    have "n = length fs - Suc i" using Suc.hyps(2) by simp
    moreover have "Suc i \<le> length fs" using lt by simp
    ultimately have ih: "setter_from (Suc i) (Other_list fs)
        (j\<lparr>restart_file_list := restart_file_list j @ [fs ! i]\<rparr>) w =
     (if list_all (isfile w) (drop (Suc i) fs)
      then Some (None, (j\<lparr>restart_file_list := restart_file_list j @ [fs ! i]\<rparr>)
                  \<lparr>restart_file_list := restart_file_list (j\<lparr>restart_file_list := restart_file_list j @ [fs ! i]\<rparr>) @ drop (Suc i) fs\<rparr>, w)
      else Some (Some (IOError (''File: '' @ hd (dropWhile (isfile w) (drop (Suc i) fs)) @ '' does not exist'')),
                 (j\<lparr>restart_file_list := restart_file_list j @ [fs ! i]\<rparr>)
                  \<lparr>restart_file_list := restart_file_list (j\<lparr>restart_file_list := restart_file_list j @ [fs ! i]\<rparr>) @ takeWhile (isfile w) (drop (Suc i) fs)\<rparr>, w))"
      by (rule Suc.hyps(1))
    show ?thesis
      by (subst setter_from.simps) (simp add: current_list_def lt True d ih)
  next
    case False
    show ?thesis
      by (subst setter_from.simps) (simp add: current_list_def lt False d)
  qed
qed

text \<open>On the job's own list, with every entry an existing file, the position read never
  reaches the end of the list: each turn of the loop makes the list one longer.\<close>

lemma setter_from_own_list_diverges:
  assumes "setter_from i filenames j w = Some res"
  shows "\<not> (filenames = Own_list \<and> i < length (restart_file_list j) \<and>
            list_all (isfile w) (restart_file_list j))"
proof (rule setter_from.raw_induct
    [where P = "\<lambda>i filenames j w res. \<not> (filenames = Own_list \<and> i < length (restart_file_list j) \<and>
                  list_all (isfile w) (restart_file_list j))", OF _ assms])
  fix rec :: "nat \<Rightarrow> assigned \<Rightarrow> job \<Rightarrow> world \<Rightarrow> outcome option"
  fix i filenames j w res
  assume ih: "\<And>i filenames j w res. rec i filenames j w = Some res \<Longrightarrow>
      \<not> (filenames = Own_list \<and> i < length (restart_file_list j) \<and>
         list_all (isfile w) (restart_file_list j))"
  assume body: "(if i < length (current_list filenames j)
        then if isfile w (current_list filenames j ! i)
             then rec (Suc i) filenames
                   (j\<lparr>restart_file_list := restart_file_list j @ [current_list filenames j ! i]\<rparr>) w
             else Some (Some (IOError (''File: '' @ current_list filenames j ! i @ '' does not exist'')), j, w)
        else Some (None, j, w)) = Some res"
  show "\<not> (filenames = Own_list \<and> i < length (restart_file_list j) \<and>
            list_all (isfile w) (restart_file_list j))"
  proof
    assume inv: "filenames = Own_list \<and> i < length (restart_file_list j) \<and>
                 list_all (isfile w) (restart_file_list j)"
    let ?j = "j\<lparr>restart_file_list := restart_file_list j @ [restart_file_list j ! i]\<rparr>"
    from inv have e: "isfile w (restart_file_list j ! i)" by (simp add: list_all_length)
    from body inv e have step: "rec (Suc i) filenames ?j w = Some res"
      by (simp add: current_list_def)
    have "\<not> (filenames = Own_list \<and> Suc i < length (restart_file_list ?j) \<and>
              list_all (isfile w) (restart_file_list ?j))"
      using step by (rule ih)
    moreover have "Suc i < length (restart_file_list ?j)" using inv by simp
    moreover have "list_all (isfile w) (restart_file_list ?j)" using inv e by simp
    ultimately show False using inv by simp
  qed
qed

lemma setter_own_list_never_returns:
  assumes "restart_file_list j \<noteq> []" and "list_all (isfile w) (restart_file_list j)"
  shows "restart_file_list_setter Own_list j w = None"
proof (cases "restart_file_list_setter Own_list j w")
  case None
  then show ?thesis .
next
  case (Some res)
  then have "setter_from 0 Own_list j w = Some res" by (simp add: restart_file_list_setter_def)
  from setter_from_own_list_diverges [OF this] assms show ?thesis by simp
qed

text \<open>On the job's own list \<open>l\<close> with a missing entry, the entries before the first
  missing one (at position \<open>k\<close>) are appended to the list itself, then the error is
  raised.\<close>

lemma setter_from_own_list_missing:
  assumes "k = length (takeWhile (isfile w) l)" and "k < length l" and "i \<le> k"
    and "restart_file_list j = l @ take i l"
  shows "setter_from i Own_list j w =
           Some (Some (IOError (''File: '' @ l ! k @ '' does not exist'')),
                 j\<lparr>restart_file_list := l @ take k l\<rparr>, w)"
  using assms(3,4)
proof (induction "k - i" arbitrary: i j)
  case 0
  then have ik: "i = k" by simp
  have "\<not> isfile w (l ! k)" using assms(1,2) by (simp add: nth_length_takeWhile)
  moreover have "(l @ take k l) ! k = l ! k" using assms(2) by (simp add: nth_append)
  moreover have "k < length (l @ take k l)" using assms(2) by auto
  ultimately show ?case
    using 0(3) ik
    by (subst setter_from.simps) (simp add: current_list_def)
next
  case (Suc n)
  then have lt: "i < k" by simp
  then have il: "i < length l" using assms(2) by simp
  have nth: "(l @ take i l) ! i = l ! i" using il by (simp add: nth_append)
  have "takeWhile (isfile w) l ! i \<in> set (takeWhile (isfile w) l)"
    using lt assms(1) by (simp only: nth_mem)
  moreover have "takeWhile (isfile w) l ! i = l ! i"
    using lt assms(1) by (simp only: takeWhile_nth)
  ultimately have "l ! i \<in> set (takeWhile (isfile w) l)" by simp
  then have ex: "isfile w (l ! i)" by (rule set_takeWhileD [THEN conjunct2])
  let ?j = "j\<lparr>restart_file_list := restart_file_list j @ [l ! i]\<rparr>"
  have r: "restart_file_list ?j = l @ take (Suc i) l"
    using Suc.prems(2) il by (simp add: take_Suc_conv_app_nth)
  have "n = k - Suc i" using Suc.hyps(2) by simp
  moreover have "Suc i \<le> k" using lt by simp
  ultimately have ih: "setter_from (Suc i) Own_list ?j w =
           Some (Some (IOError (''File: '' @ l ! k @ '' does not exist'')),
                 ?j\<lparr>restart_file_list := l @ take k l\<rparr>, w)"
    using r by (rule Suc.hyps(1))
  have len: "i < length (l @ take i l)" using il by auto
  show ?case
    using Suc.prems(2) len nth ex ih
    by (subst setter_from.simps) (simp add: current_list_def del: length_append)
qed

text \<open>What an assignment does, in every case.\<close>

lemma restart_file_list_setter_eq:
  "restart_file_list_setter filenames j w =
     (if \<exists>f \<in> set (current_list filenames j). \<not> isfile w f
      then Some (Some (IOError (''File: '' @ hd (dropWhile (isfile w) (current_list filenames j)) @
                                 '' does not exist'')),
                 j\<lparr>restart_file_list :=
                      restart_file_list j @ takeWhile (isfile w) (current_list filenames j)\<rparr>, w)
      else if filenames = Own_list \<and> restart_file_list j \<noteq> [] then None
      else Some (None, j\<lparr>restart_file_list := restart_file_list j @ current_list filenames j\<rparr>, w))"
proof (cases filenames)
  case (Other_list fs)
  have "0 \<le> length fs" by simp
  from setter_from_other_list [OF this, of j w] Other_list show ?thesis
    by (auto simp add: restart_file_list_setter_def current_list_def list_all_iff)
next
  case Own_list
  let ?l = "restart_file_list j"
  show ?thesis
  proof (cases "\<exists>f \<in> set ?l. \<not> isfile w f")
    case True
    then have "dropWhile (isfile w) ?l \<noteq> []" by simp
    then have "length (takeWhile (isfile w) ?l) <
               length (takeWhile (isfile w) ?l @ dropWhile (isfile w) ?l)"
      by (simp only: length_append) simp
    then have k: "length (takeWhile (isfile w) ?l) < length ?l" by simp
    have "setter_from 0 Own_list j w =
           Some (Some (IOError (''File: '' @ ?l ! length (takeWhile (isfile w) ?l) @ '' does not exist'')),
                 j\<lparr>restart_file_list := ?l @ take (length (takeWhile (isfile w) ?l)) ?l\<rparr>, w)"
      by (rule setter_from_own_list_missing [OF refl k]) simp_all
    moreover have "take (length (takeWhile (isfile w) ?l)) ?l = takeWhile (isfile w) ?l"
      by (simp add: takeWhile_eq_take [symmetric])
    moreover have "hd (dropWhile (isfile w) ?l) = ?l ! length (takeWhile (isfile w) ?l)"
      using k by (simp add: dropWhile_eq_drop hd_drop_conv_nth)
    ultimately show ?thesis
      using True Own_list by (simp add: restart_file_list_setter_def current_list_def)
  next
    case False
    then have all: "list_all (isfile w) ?l" by (simp add: list_all_iff)
    show ?thesis
    proof (cases "?l = []")
      case True
      have "setter_from 0 Own_list j w = Some (None, j, w)"
        by (subst setter_from.simps) (simp add: current_list_def True)
      with True False Own_list show ?thesis
        by (simp add: restart_file_list_setter_def current_list_def)
    next
      case ne: False
      from setter_own_list_never_returns [OF ne all] False ne Own_list
      show ?thesis by (simp add: current_list_def)
    qed
  qed
qed


lemma list_all_takeWhile: "list_all P (takeWhile P xs)"
  by (induction xs) simp_all




text \<open>
  C10. The assignment is not atomic: when some entry of the assigned list is missing,
  the assignment comes back with the error for the first missing entry, and the job's
  list then holds what it held before followed by the assigned entries that come before
  that one, all of which exist. This holds for another list and for the job's own list.
\<close>

theorem restart_file_list_setter_not_atomic:
  assumes "\<exists>f \<in> set (current_list filenames j). \<not> isfile w f"
  shows "restart_file_list_setter filenames j w =
           Some (Some (IOError (''File: '' @ hd (dropWhile (isfile w) (current_list filenames j)) @
                                 '' does not exist'')),
                 j\<lparr>restart_file_list :=
                      restart_file_list j @ takeWhile (isfile w) (current_list filenames j)\<rparr>, w) \<and>
         list_all (isfile w) (takeWhile (isfile w) (current_list filenames j)) \<and>
         \<not> isfile w (hd (dropWhile (isfile w) (current_list filenames j))) \<and>
         current_list filenames j =
           takeWhile (isfile w) (current_list filenames j) @
           dropWhile (isfile w) (current_list filenames j) \<and>
         dropWhile (isfile w) (current_list filenames j) \<noteq> []"
proof -
  let ?l = "current_list filenames j"
  from assms have ne: "dropWhile (isfile w) ?l \<noteq> []" by simp
  then have "\<not> isfile w (hd (dropWhile (isfile w) ?l))" by (rule hd_dropWhile)
  moreover have "list_all (isfile w) (takeWhile (isfile w) ?l)"
    by (rule list_all_takeWhile)
  ultimately show ?thesis
    using assms ne by (simp add: restart_file_list_setter_eq)
qed

theorem restart_file_list_setter_not_atomic_witness:
  "(\<exists>f \<in> set (current_list (Other_list [''a'', ''b'', ''c'']) (new_job ''job'' ''wd'')).
       \<not> isfile (empty_world\<lparr>files := [''a'' \<mapsto> Text ''x'']\<rparr>) f) \<and>
   restart_file_list_setter (Other_list [''a'', ''b'', ''c'']) (new_job ''job'' ''wd'')
       (empty_world\<lparr>files := [''a'' \<mapsto> Text ''x'']\<rparr>) =
     Some (Some (IOError ''File: b does not exist''),
           (new_job ''job'' ''wd'')\<lparr>restart_file_list := [''a'']\<rparr>,
           empty_world\<lparr>files := [''a'' \<mapsto> Text ''x'']\<rparr>)"
proof -
  have h: "\<exists>f \<in> set (current_list (Other_list [''a'', ''b'', ''c'']) (new_job ''job'' ''wd'')).
       \<not> isfile (empty_world\<lparr>files := [''a'' \<mapsto> Text ''x'']\<rparr>) f"
    by (simp add: current_list_def isfile_def empty_world_def)
  from restart_file_list_setter_not_atomic [OF h, THEN conjunct1] h
  show ?thesis by (simp add: current_list_def isfile_def empty_world_def new_job_def)
qed

section \<open>Properties of the job table\<close>

lemma map_of_update_row:
  "map_of (map (\<lambda>(k, r). if k = i then (k, f r) else (k, r)) xs) k' =
     (if k' = i then map_option f (map_of xs i) else map_of xs k')"
  by (induction xs) auto

lemma map_of_item_update:
  "map_of (db (item_update f i w)) k =
     (if k = i then map_option f (map_of (db w) i) else map_of (db w) k)"
  by (simp add: item_update_def map_of_update_row)

lemma map_of_item_update_status:
  "map_of (db (item_update_status s i w)) k =
     (if k = i then map_option (\<lambda>r. r\<lparr>r_status := s\<rparr>) (map_of (db w) i) else map_of (db w) k)"
  by (simp add: item_update_status_def map_of_item_update)

lemma item_update_status_twice:
  "item_update_status s i (item_update_status s' i w) = item_update_status s i w"
  by (simp add: item_update_status_def item_update_def comp_def case_prod_beta)

lemma item_update_status_frame [simp]:
  "files (item_update_status s i w) = files w"
  "dirs (item_update_status s i w) = dirs w"
  "hdf (item_update_status s i w) = hdf w"
  "next_id (item_update_status s i w) = next_id w"
  by (simp_all add: item_update_status_def item_update_def)

lemma abort_not_running_eq:
  "abort_not_running tbl i w =
     (if list_all (\<lambda>(key, q_id, q_status). q_status = ''r'') tbl then w
      else item_update_status ''aborted'' i w)"
proof (induction tbl arbitrary: w)
  case Nil
  show ?case by simp
next
  case (Cons entry tbl)
  obtain key q_id q_status where e: "entry = (key, q_id, q_status)" by (cases entry) auto
  show ?case
    unfolding e by (simp add: Cons.IH item_update_status_twice)
qed

section \<open>Properties of the queue reconciliation\<close>

text \<open>
  C7. For a job id (not \<open>0\<close>) that has a row in the table: if the persisted status is
  \<open>running\<close> or \<open>submitted\<close> and the queue query raises an exception, returns nothing,
  or returns only listings whose state is not \<open>r\<close>, the persisted status is forced to
  \<open>aborted\<close>; unless the query raises a keyboard interrupt or a system exit, the
  reconciliation does not raise; a row with any other status is left as it is; no other
  row is touched.
\<close>

theorem reconcile_forces_aborted:
  assumes "i \<noteq> 0" and "map_of (db w) i = Some r"
  shows
    "((r_status r = ''running'' \<or> r_status r = ''submitted'') \<and>
      (case queue_id_table i of
         QueueRaises e \<Rightarrow> is_Exception e
       | QueueNone \<Rightarrow> True
       | QueueTable tbl \<Rightarrow> list_all (\<lambda>(key, q_id, q_status). q_status \<noteq> ''r'') tbl) \<longrightarrow>
      refresh_job_status_based_on_job_id queue_id_table (Some i) True w =
        (None, item_update_status ''aborted'' i w) \<and>
      map_of (db (item_update_status ''aborted'' i w)) i = Some (r\<lparr>r_status := ''aborted''\<rparr>)) \<and>
     ((case queue_id_table i of QueueRaises e \<Rightarrow> is_Exception e | _ \<Rightarrow> True) \<longrightarrow>
      fst (refresh_job_status_based_on_job_id queue_id_table (Some i) True w) = None) \<and>
     (r_status r \<noteq> ''running'' \<and> r_status r \<noteq> ''submitted'' \<longrightarrow>
      refresh_job_status_based_on_job_id queue_id_table (Some i) True w = (None, w)) \<and>
     (\<forall>k. k \<noteq> i \<longrightarrow>
        map_of (db (snd (refresh_job_status_based_on_job_id queue_id_table (Some i) True w))) k =
        map_of (db w) k)"
proof -
  have a: "list_all (\<lambda>(key, q_id, q_status). q_status \<noteq> ''r'') (entry # rest) \<Longrightarrow>
           \<not> list_all (\<lambda>(key, q_id, q_status). q_status = ''r'') (entry # rest)" for entry rest
    by (cases entry) auto
  show ?thesis
    using assms
    by (auto simp add: refresh_job_status_based_on_job_id_def get_item_by_id_def
        abort_not_running_eq map_of_item_update_status dest: a
        split: queue_reply.splits list.splits)
qed


text \<open>A failing query, a listing that only waits, and a finished job.\<close>

theorem reconcile_forces_aborted_witness:
  "refresh_job_status_based_on_job_id (\<lambda>i. QueueRaises (OtherException ''qstat failed'')) (Some 7) True
     (empty_world\<lparr>db := [(7, row ''job'' ''running'' None None)]\<rparr>) =
     (None, empty_world\<lparr>db := [(7, row ''job'' ''aborted'' None None)]\<rparr>) \<and>
   refresh_job_status_based_on_job_id (\<lambda>i. QueueTable [(''0'', ''4711'', ''qw'')]) (Some 7) True
     (empty_world\<lparr>db := [(7, row ''job'' ''submitted'' None None)]\<rparr>) =
     (None, empty_world\<lparr>db := [(7, row ''job'' ''aborted'' None None)]\<rparr>) \<and>
   refresh_job_status_based_on_job_id (\<lambda>i. QueueNone) (Some 7) True
     (empty_world\<lparr>db := [(7, row ''job'' ''finished'' None None)]\<rparr>) =
     (None, empty_world\<lparr>db := [(7, row ''job'' ''finished'' None None)]\<rparr>)"
  using
    reconcile_forces_aborted [of 7 "empty_world\<lparr>db := [(7, row ''job'' ''running'' None None)]\<rparr>"
      "row ''job'' ''running'' None None" "\<lambda>i. QueueRaises (OtherException ''qstat failed'')"]
    reconcile_forces_aborted [of 7 "empty_world\<lparr>db := [(7, row ''job'' ''submitted'' None None)]\<rparr>"
      "row ''job'' ''submitted'' None None" "\<lambda>i. QueueTable [(''0'', ''4711'', ''qw'')]"]
    reconcile_forces_aborted [of 7 "empty_world\<lparr>db := [(7, row ''job'' ''finished'' None None)]\<rparr>"
      "row ''job'' ''finished'' None None" "\<lambda>i. QueueNone"]
  by (simp add: empty_world_def row_def item_update_status_def item_update_def)

section \<open>Properties of the master wake protocol\<close>

lemmas ex_defs = update_master_pass_def wake_ext_def example_ext_def sibling_completes_def loaded_master_def child_of_def
      master_world_def empty_world_def new_job_def row_def item_update_status_def item_update_def
      get_item_by_id_def load_def ok_def raises_def isfile_def rm_thread_def



text \<open>
  C1. \<^verbatim>\<open>update_master\<close> of a job whose master id is \<open>m\<close>, by the persisted status of
  \<open>m\<close>. \<open>refresh\<close>: it is set to \<open>busy\<close> and nothing else happens. \<open>suspended\<close>: it
  is set to \<open>refresh\<close>, the master is loaded (its status is then \<open>refresh\<close>) and its
  refresh handler invoked; when the persisted status afterwards is \<open>busy\<close> it is set to
  \<open>suspended\<close> and the protocol starts again, and otherwise the call returns. Any other
  status, and no master id at all: nothing is changed.
\<close>

theorem update_master_protocol:
  "(master_id j = None \<longrightarrow> update_master (Suc n) x j w = Some (None, j, w)) \<and>
   (master_id j = Some m \<and> map_of (db w) m = Some r \<longrightarrow>
      (r_status r = ''refresh'' \<longrightarrow>
         update_master (Suc n) x j w = Some (None, j, item_update_status ''busy'' m w)) \<and>
      (r_status r \<noteq> ''suspended'' \<and> r_status r \<noteq> ''refresh'' \<longrightarrow>
         update_master (Suc n) x j w = Some (None, j, w)) \<and>
      (r_status r = ''suspended'' \<and>
       load m (item_update_status ''refresh'' m w) = Inr master_job \<and>
       x_run_if_refresh x master_job (item_update_status ''refresh'' m w) = (None, master_job2, w2) \<and>
       w3 = (if rm_thread (run_mode j) \<and> has_process master_job2
             then x_communicate x master_job2 w2 else w2) \<and>
       map_of (db w3) m = Some r3 \<longrightarrow>
         status_string master_job = ''refresh'' \<and>
         update_master (Suc n) x j w =
           (if r_status r3 = ''busy''
            then update_master n x j (item_update_status ''suspended'' m w3)
            else Some (None, j, w3))))"
  by (auto simp add: update_master_pass_def get_item_by_id_def load_def
      map_of_item_update_status split: option.splits if_splits)


text \<open>The second child finds the master in \<open>refresh\<close> and marks it \<open>busy\<close>; the first
  child, back from the handler, finds \<open>busy\<close>, marks the master \<open>suspended\<close> and wakes it
  again, after which the master is finished; a finished master is left alone, and so is
  the table when the job has no master.\<close>

theorem update_master_protocol_witness:
  "update_master (Suc 0) example_ext (child_of ''second'' 3 1)
     (item_update_status ''refresh'' 1 master_world) =
     Some (None, child_of ''second'' 3 1,
           item_update_status ''busy'' 1 (item_update_status ''refresh'' 1 master_world)) \<and>
   update_master (Suc (Suc 0)) wake_ext (child_of ''first'' 2 1) master_world =
     update_master (Suc 0) wake_ext (child_of ''first'' 2 1)
       (item_update_status ''suspended'' 1
          ((item_update_status ''busy'' 1 master_world)\<lparr>files := [''second_done'' \<mapsto> Text []]\<rparr>)) \<and>
   update_master (Suc (Suc 0)) wake_ext (child_of ''first'' 2 1) master_world =
     Some (None, child_of ''first'' 2 1,
           (item_update_status ''finished'' 1 master_world)
             \<lparr>files := [''second_done'' \<mapsto> Text []]\<rparr>) \<and>
   update_master (Suc 0) wake_ext (child_of ''first'' 2 1)
     (item_update_status ''finished'' 1 master_world) =
     Some (None, child_of ''first'' 2 1, item_update_status ''finished'' 1 master_world) \<and>
   update_master (Suc 0) wake_ext ((child_of ''first'' 2 1)\<lparr>master_id := None\<rparr>) master_world =
     Some (None, (child_of ''first'' 2 1)\<lparr>master_id := None\<rparr>, master_world)"
proof -
  let ?busy = "(item_update_status ''busy'' 1 master_world)\<lparr>files := [''second_done'' \<mapsto> Text []]\<rparr>"
  have a1: "master_id (child_of ''second'' 3 1) = Some 1 \<and>
            map_of (db (item_update_status ''refresh'' 1 master_world)) 1 =
              Some (row ''master'' ''refresh'' None None)"
    by (simp add: ex_defs)
  have a2: "r_status (row ''master'' ''refresh'' None None) = ''refresh''"
    by (simp add: row_def)
  from update_master_protocol [where j = "child_of ''second'' 3 1" and n = 0 and x = example_ext
      and w = "item_update_status ''refresh'' 1 master_world" and m = 1
      and r = "row ''master'' ''refresh'' None None"] a1 a2
  have c1: "update_master (Suc 0) example_ext (child_of ''second'' 3 1)
     (item_update_status ''refresh'' 1 master_world) =
     Some (None, child_of ''second'' 3 1,
           item_update_status ''busy'' 1 (item_update_status ''refresh'' 1 master_world))"
    by blast
  have b1: "master_id (child_of ''first'' 2 1) = Some 1 \<and>
            map_of (db master_world) 1 = Some (row ''master'' ''suspended'' None None)"
    by (simp add: ex_defs)
  have b2: "r_status (row ''master'' ''suspended'' None None) = ''suspended'' \<and>
       load 1 (item_update_status ''refresh'' 1 master_world) = Inr loaded_master \<and>
       x_run_if_refresh wake_ext loaded_master (item_update_status ''refresh'' 1 master_world) =
         (None, loaded_master, ?busy) \<and>
       ?busy = (if rm_thread (run_mode (child_of ''first'' 2 1)) \<and> has_process loaded_master
                then x_communicate wake_ext loaded_master ?busy else ?busy) \<and>
       map_of (db ?busy) 1 = Some (row ''master'' ''busy'' None None)"
    by (simp add: ex_defs)
  have b3: "r_status (row ''master'' ''busy'' None None) = ''busy''"
    by (simp add: row_def)
  from update_master_protocol [where j = "child_of ''first'' 2 1" and n = "Suc 0" and x = wake_ext
      and w = master_world and m = 1 and r = "row ''master'' ''suspended'' None None"
      and master_job = loaded_master and ?master_job2.0 = loaded_master
      and ?w2.0 = ?busy and ?w3.0 = ?busy and ?r3.0 = "row ''master'' ''busy'' None None"] b1 b2
  have "update_master (Suc (Suc 0)) wake_ext (child_of ''first'' 2 1) master_world =
          (if r_status (row ''master'' ''busy'' None None) = ''busy''
           then update_master (Suc 0) wake_ext (child_of ''first'' 2 1)
                  (item_update_status ''suspended'' 1 ?busy)
           else Some (None, child_of ''first'' 2 1, ?busy))"
    by blast
  with b3 have c2: "update_master (Suc (Suc 0)) wake_ext (child_of ''first'' 2 1) master_world =
      update_master (Suc 0) wake_ext (child_of ''first'' 2 1) (item_update_status ''suspended'' 1 ?busy)"
    by simp
  have c3: "update_master (Suc 0) wake_ext (child_of ''first'' 2 1) (item_update_status ''suspended'' 1 ?busy) =
     Some (None, child_of ''first'' 2 1,
           (item_update_status ''finished'' 1 master_world)
             \<lparr>files := [''second_done'' \<mapsto> Text []]\<rparr>)"
    by (simp add: ex_defs)
  have c4: "update_master (Suc 0) wake_ext (child_of ''first'' 2 1)
     (item_update_status ''finished'' 1 master_world) =
     Some (None, child_of ''first'' 2 1, item_update_status ''finished'' 1 master_world)"
    by (simp add: ex_defs)
  have c5: "update_master (Suc 0) wake_ext ((child_of ''first'' 2 1)\<lparr>master_id := None\<rparr>) master_world =
     Some (None, (child_of ''first'' 2 1)\<lparr>master_id := None\<rparr>, master_world)"
    by (simp add: ex_defs)
  from c1 c2 c3 c4 c5 show ?thesis by simp
qed

section \<open>Properties of the dispatcher\<close>


lemma dispatch_no_handler:
  assumes "status \<noteq> ''initialized''" "status \<noteq> ''created''" "status \<noteq> ''submitted''"
    "status \<noteq> ''running''" "status \<noteq> ''collect''" "status \<noteq> ''suspend''"
    "status \<noteq> ''refresh''" "status \<noteq> ''busy''" "status \<noteq> ''finished''"
  shows "dispatch n x rec a status j w = Some (None, j, w)"
  using assms by (simp add: dispatch_def ok_def)

lemma seq_ok [simp]: "seq (ok j w) k = k j w"
  by (simp add: seq_def ok_def)

lemma seq_Some_None [simp]: "seq (Some (None, j, w)) k = k j w"
  by (simp add: seq_def)

lemma seq_Some_Some [simp]: "seq (Some (Some e, j, w)) k = Some (Some e, j, w)"
  by (simp add: seq_def)

lemma run_except_ok [simp]: "run_except (Some (None, j, w)) = Some (None, j, w)"
  by (simp add: run_except_def)

lemma with_run_mode_status [simp]:
  "status_string (with_run_mode a j) = status_string j"
  "job_id (with_run_mode a j) = job_id j"
  by (simp_all add: with_run_mode_def split: option.splits)

lemma with_run_mode_idem [simp]: "with_run_mode a (with_run_mode a j) = with_run_mode a j"
  by (simp add: with_run_mode_def split: option.splits)

lemma run_body_plain:
  assumes "\<not> run_again a" and "\<not> repair a"
  shows "run_body n x rec a j w = dispatch n x rec a (status_string j) (with_run_mode a j) w"
  using assms by (simp add: run_body_def Let_def)

lemma run_no_handler:
  assumes "\<not> run_again a" and "\<not> repair a"
    and "status_string j = status" 
    and "status \<noteq> ''initialized''" "status \<noteq> ''created''" "status \<noteq> ''submitted''"
    "status \<noteq> ''running''" "status \<noteq> ''collect''" "status \<noteq> ''suspend''"
    "status \<noteq> ''refresh''" "status \<noteq> ''busy''" "status \<noteq> ''finished''"
  shows "run (Suc n) x a j w = Some (None, with_run_mode a j, w)"
  using assms by (simp add: run_body_plain dispatch_no_handler)

lemma run_repeatedly_no_handler:
  assumes "\<not> run_again a" and "\<not> repair a"
    and "status_string j = status" 
    and "status \<noteq> ''initialized''" "status \<noteq> ''created''" "status \<noteq> ''submitted''"
    "status \<noteq> ''running''" "status \<noteq> ''collect''" "status \<noteq> ''suspend''"
    "status \<noteq> ''refresh''" "status \<noteq> ''busy''" "status \<noteq> ''finished''"
  shows "run_repeatedly k (Suc n) x a j w =
           Some (None, if k = 0 then j else with_run_mode a j, w)"
  using assms(3)
proof (induction k arbitrary: j)
  case 0
  show ?case by (simp add: ok_def)
next
  case (Suc k)
  have r: "run (Suc n) x a j w = Some (None, with_run_mode a j, w)"
    using assms(1,2) Suc.prems assms(4-) by (rule run_no_handler)
  have "status_string (with_run_mode a j) = status" using Suc.prems by simp
  from Suc.IH [OF this] r show ?case by simp
qed







text \<open>
  C8. For a job whose status is \<open>aborted\<close>, \<^verbatim>\<open>run\<close> without \<^verbatim>\<open>run_again\<close> and
  without \<^verbatim>\<open>repair\<close> reaches no handler, whatever the handlers are: it raises nothing,
  the status and the world are unchanged (only a run mode that was passed is stored in the
  object), and calling it \<open>k\<close> times in a row gives the same.
\<close>

theorem run_aborted_is_noop:
  assumes "status_string j = ''aborted''" and "\<not> run_again a" and "\<not> repair a"
  shows "dispatch n x rec a (status_string j) j w = Some (None, j, w) \<and>
         run (Suc n) x a j w = Some (None, with_run_mode a j, w) \<and>
         status_string (with_run_mode a j) = ''aborted'' \<and>
         (run_mode_arg a = None \<longrightarrow> with_run_mode a j = j) \<and>
         run_repeatedly k (Suc n) x a j w =
           Some (None, if k = 0 then j else with_run_mode a j, w)"
proof -
  have d: "dispatch n x rec a (status_string j) j w = Some (None, j, w)"
    using assms(1) by (simp add: dispatch_no_handler)
  have r: "run (Suc n) x a j w = Some (None, with_run_mode a j, w)"
    by (rule run_no_handler [where status = "''aborted''"]) (use assms in simp_all)
  have k: "run_repeatedly k (Suc n) x a j w =
           Some (None, if k = 0 then j else with_run_mode a j, w)"
    by (rule run_repeatedly_no_handler [where status = "''aborted''"]) (use assms in simp_all)
  have m: "run_mode_arg a = None \<longrightarrow> with_run_mode a j = j"
    by (simp add: with_run_mode_def)
  from d r k m assms(1) show ?thesis by simp
qed

theorem run_aborted_is_noop_witness:
  "run (Suc 0) example_ext default_args (stored_job ''job'' 5 ''aborted'')
       (one_job_world ''job'' 5 ''aborted'') =
     Some (None, stored_job ''job'' 5 ''aborted'', one_job_world ''job'' 5 ''aborted'') \<and>
   run_repeatedly 3 (Suc 0) example_ext default_args (stored_job ''job'' 5 ''aborted'')
       (one_job_world ''job'' 5 ''aborted'') =
     Some (None, stored_job ''job'' 5 ''aborted'', one_job_world ''job'' 5 ''aborted'')"
proof -
  have h: "status_string (stored_job ''job'' 5 ''aborted'') = ''aborted''"
    "\<not> run_again default_args" "\<not> repair default_args" "run_mode_arg default_args = None"
    by (simp_all add: stored_job_def default_args_def)
  from run_aborted_is_noop [OF h(1,2,3), where n = 0 and x = example_ext
      and w = "one_job_world ''job'' 5 ''aborted''" and k = 3
      and rec = "run 0 example_ext"] h(4)
  show ?thesis by simp
qed


text \<open>
  C2. What the code does where the claim expects the status \<open>refresh\<close>: the dispatcher
  compares the status with \<open>suspend\<close>, so a job whose status is \<open>suspended\<close> reaches no
  handler and \<^verbatim>\<open>run()\<close> with default arguments returns with the job and the world
  unchanged. The handler \<^verbatim>\<open>_run_if_suspended\<close>, which marks the status \<open>refresh\<close> and
  calls \<^verbatim>\<open>run\<close> again, is reached only for the status \<open>suspend\<close>, which no job has.
\<close>

theorem run_suspended_is_not_dispatched:
  assumes "status_string j = ''suspended''"
  shows "dispatch n x rec default_args (status_string j) j w = Some (None, j, w) \<and>
         run (Suc n) x default_args j w = Some (None, j, w) \<and>
         dispatch n x rec default_args ''suspend'' j w = run_if_suspended rec j w \<and>
         run_if_suspended rec j w =
           rec default_args (j\<lparr>status_string := ''refresh''\<rparr>) (snd (set_status ''refresh'' j w))"
proof -
  have d: "dispatch n x rec default_args (status_string j) j w = Some (None, j, w)"
    using assms by (simp add: dispatch_no_handler)
  have r: "run (Suc n) x default_args j w = Some (None, with_run_mode default_args j, w)"
    by (rule run_no_handler [where status = "''suspended''"])
      (use assms in \<open>simp_all add: default_args_def\<close>)
  have s: "dispatch n x rec default_args ''suspend'' j w = run_if_suspended rec j w"
    by (simp add: dispatch_def)
  have m: "with_run_mode default_args j = j"
    by (simp add: with_run_mode_def default_args_def)
  have h: "run_if_suspended rec j w =
           rec default_args (j\<lparr>status_string := ''refresh''\<rparr>) (snd (set_status ''refresh'' j w))"
    by (simp add: run_if_suspended_def set_status_def)
  from d r s m h show ?thesis by simp
qed


theorem run_suspended_is_not_dispatched_witness:
  "run (Suc 0) example_ext default_args (stored_job ''job'' 5 ''suspended'')
       (one_job_world ''job'' 5 ''suspended'') =
     Some (None, stored_job ''job'' 5 ''suspended'', one_job_world ''job'' 5 ''suspended'') \<and>
   status_string (stored_job ''job'' 5 ''suspended'') \<noteq> ''refresh''"
proof -
  have h: "status_string (stored_job ''job'' 5 ''suspended'') = ''suspended''"
    by (simp add: stored_job_def)
  from run_suspended_is_not_dispatched [OF h, where n = 0 and x = example_ext
      and w = "one_job_world ''job'' 5 ''suspended''" and rec = "run 0 example_ext"] h
  show ?thesis by simp
qed

section \<open>Properties of the reset by run again\<close>

lemma outcome_parts [simp]:
  "exc_of (e, j, w) = e" "job_of (e, j, w) = j" "world_of (e, j, w) = w"
  by (simp_all add: exc_of_def job_of_def world_of_def)

lemma map_of_filter_key: "map_of (filter (\<lambda>(k, r). k \<noteq> i) xs) k' = (if k' = i then None else map_of xs k')"
  by (induction xs) auto

lemma remove_effect:
  "map_of (db (world_of (remove j w))) k =
     (if job_id j = Some k then None else map_of (db w) k)"
  "hdf (world_of (remove j w)) (job_name j) = None"
  "\<not> isdir (world_of (remove j w)) (working_directory j)"
  "inside (working_directory j) f \<Longrightarrow> \<not> isfile (world_of (remove j w)) f"
  "next_id (world_of (remove j w)) = next_id w"
  by (auto simp add: remove_def world_of_def delete_item_def map_of_filter_key isdir_def isfile_def
      split: option.splits)

lemmas engine_defs = update_master_pass_def run_body_def Let_def dispatch_def with_run_mode_def default_args_def seq_def
  seq_other_def ok_def raises_def run_except_def run_again_reset_def remove_def reset_job_id_def
  set_master_id_def set_parent_id_def set_status_def run_if_new_def create_job_structure_def
  create_working_directory_def copy_restart_files_def save_def to_hdf_def db_entry_def
  add_item_dict_def refresh_job_status_def write_run_wrapper_def write_file_def
  calculate_predecessor_def calculate_successor_def get_items_dict_parentid_def
  run_if_created_def run_if_modal_def run_if_collect_def runtime_update_def
  drop_status_to_aborted_def get_item_by_id_def item_update_status_def item_update_def
  delete_item_def isdir_def isfile_def inside_def path_join_def load_def

lemmas family_defs = script_ext_def example_ext_def family_job_def family_world_def
  stored_job_def new_job_def empty_world_def row_def

lemma run_again_example:
  "(case run (Suc (Suc (Suc (Suc 0)))) script_ext (default_args\<lparr>run_again := True\<rparr>)
           family_job family_world of
      None \<Rightarrow> False
    | Some (e, j, w) \<Rightarrow>
        e = None \<and>
        j = family_job\<lparr>job_id := Some 10, status_job_id := Some 10\<rparr> \<and>
        db w = [(8, row ''parent'' ''finished'' None None),
                (9, row ''master'' ''finished'' None None),
                (10, row ''job'' ''finished'' (Some 9) (Some 8))] \<and>
        files w ''job/output'' = None \<and> files w ''job/error.msg'' = None \<and>
        files w ''notes'' = Some (Text ''keep''))"
  by (simp add: engine_defs family_defs)



text \<open>
  C4. For a job that has an id (not \<open>0\<close>), \<^verbatim>\<open>run(run_again=True)\<close> first resets the
  job: the row of the id, the stored object, the working directory and the files in it are
  removed and no other row is touched; the object then has no id and the status
  \<open>initialized\<close>, and its master id and parent id are the ones it had before the call.
  The dispatcher goes on with the handler of \<open>initialized\<close> on the job and the world the
  reset leaves.
\<close>

theorem run_again_resets_job:
  assumes "job_id j = Some i" and "i \<noteq> 0" and "run_again a"
  shows
    "run_again_reset j w =
       (None, j\<lparr>job_id := None, status_string := ''initialized'', status_job_id := None\<rparr>,
        world_of (remove j w)) \<and>
     job_id (job_of (run_again_reset j w)) = None \<and>
     status_string (job_of (run_again_reset j w)) = ''initialized'' \<and>
     master_id (job_of (run_again_reset j w)) = master_id j \<and>
     parent_id (job_of (run_again_reset j w)) = parent_id j \<and>
     map_of (db (world_of (run_again_reset j w))) i = None \<and>
     hdf (world_of (run_again_reset j w)) (job_name j) = None \<and>
     \<not> isdir (world_of (run_again_reset j w)) (working_directory j) \<and>
     (\<forall>f. inside (working_directory j) f \<longrightarrow> \<not> isfile (world_of (run_again_reset j w)) f) \<and>
     (\<forall>k. k \<noteq> i \<longrightarrow> map_of (db (world_of (run_again_reset j w))) k = map_of (db w) k) \<and>
     run_body n x rec a j w =
       run_if_new x rec (debug a) (que_wait_for a)
         (job_of (run_again_reset (with_run_mode a j) w))
         (world_of (run_again_reset (with_run_mode a j) w))"
proof -
  have r: "run_again_reset j' w =
       (None, j'\<lparr>job_id := None, status_string := ''initialized'', status_job_id := None\<rparr>,
        world_of (remove j' w))" for j'
    by (simp add: run_again_reset_def Let_def remove_def world_of_def reset_job_id_def
        set_master_id_def set_parent_id_def)
  have b: "run_body n x rec a j w =
       run_if_new x rec (debug a) (que_wait_for a)
         (job_of (run_again_reset (with_run_mode a j) w))
         (world_of (run_again_reset (with_run_mode a j) w))"
    using assms by (simp add: run_body_def Let_def r dispatch_def)
  show ?thesis
    using assms b by (simp add: r remove_effect)
qed


text \<open>The finished job \<open>5\<close> with master \<open>9\<close> and parent \<open>8\<close>: the reset removes its row
  and its output; the whole call, in modal mode with a workload that succeeds, ends with
  the job finished again under the fresh id \<open>10\<close>, its row carrying the same master and
  parent.\<close>

theorem run_again_resets_job_witness:
  "run_again_reset family_job family_world =
     (None, family_job\<lparr>job_id := None, status_string := ''initialized'', status_job_id := None\<rparr>,
      world_of (remove family_job family_world)) \<and>
   master_id (job_of (run_again_reset family_job family_world)) = Some 9 \<and>
   parent_id (job_of (run_again_reset family_job family_world)) = Some 8 \<and>
   map_of (db family_world) 5 = Some (row ''job'' ''finished'' (Some 9) (Some 8)) \<and>
   map_of (db (world_of (run_again_reset family_job family_world))) 5 = None \<and>
   isfile family_world ''job/output'' \<and>
   \<not> isfile (world_of (run_again_reset family_job family_world)) ''job/output'' \<and>
   (case run (Suc (Suc (Suc (Suc 0)))) script_ext (default_args\<lparr>run_again := True\<rparr>)
           family_job family_world of
      None \<Rightarrow> False
    | Some (e, j, w) \<Rightarrow>
        e = None \<and>
        j = family_job\<lparr>job_id := Some 10, status_job_id := Some 10\<rparr> \<and>
        db w = [(8, row ''parent'' ''finished'' None None),
                (9, row ''master'' ''finished'' None None),
                (10, row ''job'' ''finished'' (Some 9) (Some 8))] \<and>
        files w ''job/output'' = None \<and> files w ''job/error.msg'' = None \<and>
        files w ''notes'' = Some (Text ''keep''))"
proof -
  have h: "job_id family_job = Some 5" "(5::nat) \<noteq> 0" "run_again (default_args\<lparr>run_again := True\<rparr>)"
    by (simp_all add: family_defs)
  note t = run_again_resets_job [OF h, where w = family_world and n = 0 and x = script_ext
      and rec = "run 0 script_ext"]
  have i: "inside (working_directory family_job) ''job/output''"
    by (simp add: inside_def path_join_def family_defs)
  from t i have c1: "run_again_reset family_job family_world =
     (None, family_job\<lparr>job_id := None, status_string := ''initialized'', status_job_id := None\<rparr>,
      world_of (remove family_job family_world)) \<and>
   master_id (job_of (run_again_reset family_job family_world)) = master_id family_job \<and>
   parent_id (job_of (run_again_reset family_job family_world)) = parent_id family_job \<and>
   map_of (db (world_of (run_again_reset family_job family_world))) 5 = None \<and>
   \<not> isfile (world_of (run_again_reset family_job family_world)) ''job/output''"
    by blast
  then have c1': "master_id (job_of (run_again_reset family_job family_world)) = Some 9 \<and>
      parent_id (job_of (run_again_reset family_job family_world)) = Some 8"
    by (simp add: family_defs)
  have c2: "master_id family_job = Some 9" "parent_id family_job = Some 8"
    "map_of (db family_world) 5 = Some (row ''job'' ''finished'' (Some 9) (Some 8))"
    "isfile family_world ''job/output''"
    by (simp_all add: family_defs isfile_def)
  from c1 c1' c2 run_again_example show ?thesis by blast
qed

section \<open>Properties of the modal execution\<close>

lemmas modal_defs = failing_ext_def script_ext_def example_ext_def stored_job_def
  one_job_world_def new_job_def empty_world_def row_def

lemma modal_failure_example:
  "(case run (Suc (Suc (Suc (Suc 0)))) failing_ext default_args (new_job ''calc'' ''calc'') empty_world of
      None \<Rightarrow> False
    | Some (e, j, w) \<Rightarrow>
        e = Some (RuntimeError ''Job aborted'') \<and>
        status_string j = ''aborted'' \<and> job_id j = Some 1 \<and>
        db w = [(1, row ''calc'' ''aborted'' None None)] \<and>
        files w ''calc/error.msg'' = Some (Text ''segfault''))"
  by (simp add: engine_defs modal_defs)

lemma modal_success_example:
  "(case run (Suc (Suc (Suc (Suc 0)))) script_ext default_args (new_job ''calc'' ''calc'') empty_world of
      None \<Rightarrow> False
    | Some (e, j, w) \<Rightarrow>
        e = None \<and>
        status_string j = ''finished'' \<and> job_id j = Some 1 \<and>
        db w = [(1, row ''calc'' ''finished'' None None)] \<and>
        files w ''calc/error.msg'' = None)"
  by (simp add: engine_defs modal_defs)




text \<open>
  C5. \<^verbatim>\<open>run_if_modal\<close>, by what the workload did after the status was set to
  \<open>running\<close>. It exited non-zero and the working directory exists: the status is set to
  \<open>aborted\<close>, in memory and in the job's row, the captured output is written to the file
  \<open>error.msg\<close> in the working directory, and \<^verbatim>\<open>RuntimeError("Job aborted")\<close> is
  raised. It exited with \<open>0\<close>: the status is set to \<open>collect\<close>, in memory and in the
  row, and the result is that of \<^verbatim>\<open>run()\<close> with default arguments on that job; no
  file is written on the way.
\<close>

theorem run_if_modal_outcomes:
  "(x_check_output x (j\<lparr>status_string := ''running''\<rparr>) (snd (set_status ''running'' j w)) =
      (CalledProcessError captured, w2) \<and> isdir w2 (working_directory j) \<longrightarrow>
      run_if_modal x rec j w =
        Some (Some (RuntimeError ''Job aborted''), j\<lparr>status_string := ''aborted''\<rparr>,
              (snd (set_status ''aborted'' j w2))
                \<lparr>files := (files w2)(path_join (working_directory j) ''error.msg'' \<mapsto> Text captured)\<rparr>) \<and>
      (\<forall>i r. status_job_id j = Some i \<and> map_of (db w2) i = Some r \<longrightarrow>
         map_of (db (snd (set_status ''aborted'' j w2))) i = Some (r\<lparr>r_status := ''aborted''\<rparr>))) \<and>
   (x_check_output x (j\<lparr>status_string := ''running''\<rparr>) (snd (set_status ''running'' j w)) =
      (Completed out, w2) \<longrightarrow>
      run_if_modal x rec j w =
        rec default_args (j\<lparr>status_string := ''collect''\<rparr>) (snd (set_status ''collect'' j w2)) \<and>
      files (snd (set_status ''collect'' j w2)) = files w2 \<and>
      (\<forall>i r. status_job_id j = Some i \<and> map_of (db w2) i = Some r \<longrightarrow>
         map_of (db (snd (set_status ''collect'' j w2))) i = Some (r\<lparr>r_status := ''collect''\<rparr>)))"
  by (auto simp add: run_if_modal_def set_status_def write_file_def raises_def
      map_of_item_update_status isdir_def split: option.splits)

text \<open>Both outcomes for the submitted job \<open>1\<close>, and both for a fresh job run from the
  start: it ends \<open>aborted\<close> with the output in \<open>error.msg\<close> and the error raised, or
  \<open>finished\<close> with no such file.\<close>

theorem run_if_modal_outcomes_witness:
  "run_if_modal failing_ext (run 0 failing_ext) (stored_job ''calc'' 1 ''submitted'')
       (one_job_world ''calc'' 1 ''submitted'') =
     Some (Some (RuntimeError ''Job aborted''), stored_job ''calc'' 1 ''aborted'',
           (item_update_status ''aborted'' 1 (one_job_world ''calc'' 1 ''submitted''))
             \<lparr>files := [''calc/error.msg'' \<mapsto> Text ''segfault'']\<rparr>) \<and>
   run_if_modal script_ext (run (Suc (Suc 0)) script_ext) (stored_job ''calc'' 1 ''submitted'')
       (one_job_world ''calc'' 1 ''submitted'') =
     run (Suc (Suc 0)) script_ext default_args (stored_job ''calc'' 1 ''collect'')
       (item_update_status ''collect'' 1 (one_job_world ''calc'' 1 ''submitted'')) \<and>
   (case run (Suc (Suc (Suc (Suc 0)))) failing_ext default_args (new_job ''calc'' ''calc'') empty_world of
      None \<Rightarrow> False
    | Some (e, j, w) \<Rightarrow>
        e = Some (RuntimeError ''Job aborted'') \<and>
        status_string j = ''aborted'' \<and> job_id j = Some 1 \<and>
        db w = [(1, row ''calc'' ''aborted'' None None)] \<and>
        files w ''calc/error.msg'' = Some (Text ''segfault'')) \<and>
   (case run (Suc (Suc (Suc (Suc 0)))) script_ext default_args (new_job ''calc'' ''calc'') empty_world of
      None \<Rightarrow> False
    | Some (e, j, w) \<Rightarrow>
        e = None \<and>
        status_string j = ''finished'' \<and> job_id j = Some 1 \<and>
        db w = [(1, row ''calc'' ''finished'' None None)] \<and>
        files w ''calc/error.msg'' = None)"
proof -
  let ?J = "stored_job ''calc'' 1 ''submitted''"
  let ?W = "one_job_world ''calc'' 1 ''submitted''"
  have h1: "x_check_output failing_ext (?J\<lparr>status_string := ''running''\<rparr>)
              (snd (set_status ''running'' ?J ?W)) =
              (CalledProcessError ''segfault'', item_update_status ''running'' 1 ?W) \<and>
            isdir (item_update_status ''running'' 1 ?W) (working_directory ?J)"
    by (simp add: modal_defs set_status_def isdir_def item_update_status_def item_update_def)
  from run_if_modal_outcomes [where x = failing_ext and j = ?J and w = ?W
      and captured = "''segfault''" and ?w2.0 = "item_update_status ''running'' 1 ?W"
      and rec = "run 0 failing_ext"] h1
  have c1: "run_if_modal failing_ext (run 0 failing_ext) ?J ?W =
        Some (Some (RuntimeError ''Job aborted''), ?J\<lparr>status_string := ''aborted''\<rparr>,
              (snd (set_status ''aborted'' ?J (item_update_status ''running'' 1 ?W)))
                \<lparr>files := (files (item_update_status ''running'' 1 ?W))
                   (path_join (working_directory ?J) ''error.msg'' \<mapsto> Text ''segfault'')\<rparr>)"
    by blast
  have e1: "?J\<lparr>status_string := ''aborted''\<rparr> = stored_job ''calc'' 1 ''aborted''"
    "(snd (set_status ''aborted'' ?J (item_update_status ''running'' 1 ?W)))
                \<lparr>files := (files (item_update_status ''running'' 1 ?W))
                   (path_join (working_directory ?J) ''error.msg'' \<mapsto> Text ''segfault'')\<rparr> =
     (item_update_status ''aborted'' 1 ?W)\<lparr>files := [''calc/error.msg'' \<mapsto> Text ''segfault'']\<rparr>"
    by (simp_all add: modal_defs set_status_def item_update_status_def item_update_def path_join_def)
  have h2: "x_check_output script_ext (?J\<lparr>status_string := ''running''\<rparr>)
              (snd (set_status ''running'' ?J ?W)) =
              (Completed [], item_update_status ''running'' 1 ?W)"
    by (simp add: modal_defs set_status_def)
  from run_if_modal_outcomes [where x = script_ext and j = ?J and w = ?W
      and out = "[]" and ?w2.0 = "item_update_status ''running'' 1 ?W"
      and rec = "run (Suc (Suc 0)) script_ext"] h2
  have c2: "run_if_modal script_ext (run (Suc (Suc 0)) script_ext) ?J ?W =
        run (Suc (Suc 0)) script_ext default_args (?J\<lparr>status_string := ''collect''\<rparr>)
          (snd (set_status ''collect'' ?J (item_update_status ''running'' 1 ?W)))"
    by blast
  have e2: "?J\<lparr>status_string := ''collect''\<rparr> = stored_job ''calc'' 1 ''collect''"
    "snd (set_status ''collect'' ?J (item_update_status ''running'' 1 ?W)) =
     item_update_status ''collect'' 1 ?W"
    by (simp_all add: modal_defs set_status_def item_update_status_def item_update_def)
  from c1 e1 have d1: "run_if_modal failing_ext (run 0 failing_ext) ?J ?W =
     Some (Some (RuntimeError ''Job aborted''), stored_job ''calc'' 1 ''aborted'',
           (item_update_status ''aborted'' 1 ?W)\<lparr>files := [''calc/error.msg'' \<mapsto> Text ''segfault'']\<rparr>)"
    by (simp only:)
  from c2 e2 have d2: "run_if_modal script_ext (run (Suc (Suc 0)) script_ext) ?J ?W =
     run (Suc (Suc 0)) script_ext default_args (stored_job ''calc'' 1 ''collect'')
       (item_update_status ''collect'' 1 ?W)"
    by (simp only:)
  from d1 d2 modal_failure_example modal_success_example show ?thesis by blast
qed

section \<open>Properties of the parent chain\<close>

lemma children_set:
  "set (sort (get_items_dict_parentid (Some i) w)) =
     {k. \<exists>r. (k, r) \<in> set (db w) \<and> r_parentid r = Some i}"
  by (auto simp add: get_items_dict_parentid_def image_iff)

lemma chain_example:
  "(case run (Suc (Suc (Suc (Suc (Suc (Suc 0)))))) script_ext default_args chain_child chain_world of
      None \<Rightarrow> False
    | Some (e, j, w) \<Rightarrow>
        e = None \<and> job_id j = Some 2 \<and> status_string j = ''suspended'' \<and>
        db w = [(1, row ''A'' ''finished'' None None),
                (2, row ''B'' ''finished'' None (Some 1))])"
  by (simp add: engine_defs wake_child_def GenericJob_before_successor_calc_def family_defs
      chain_world_def chain_child_def)


lemmas chain_defs = chain_world_def chain_child_def chain_world_saved_def probe_runner_def
  script_ext_def example_ext_def stored_job_def new_job_def empty_world_def row_def


text \<open>
  C6, as the code has it. The predecessor check is the last step of creating the job
  structure: when the working directory was created, the restart files copied, the input
  written, the job saved and the wrapper written, it runs on the job marked \<open>created\<close>,
  and the working directory and the wrapper exist by then. The check itself: with a parent
  id whose row has the status \<open>initialized\<close> or \<open>created\<close>, the job marks itself
  \<open>suspended\<close>, loads the parent and calls its \<^verbatim>\<open>run()\<close>, whose exception, if any,
  and world are the result; with no parent id or another status nothing happens. At
  collect, the ids of the rows whose parent id is the job's id are taken in ascending
  order; a child whose persisted status is \<open>suspended\<close> when its turn comes is loaded,
  marked \<open>created\<close> in its row, passed to the hook \<^verbatim>\<open>_before_successor_calc\<close> and
  run; any other child is skipped; an exception ends the loop. The dispatcher calls the
  collect handler for the status \<open>collect\<close>, and the handler, when the output and the
  log files were collected, the status set to \<open>finished\<close> and the master updated,
  ends with this loop.
\<close>

theorem chain_coordination:
  "(copy_restart_files j (create_working_directory j w) = (None, j1, w1) \<and>
    x_write_input x j1 w1 = (None, j2, w2) \<and>
    save j2 w2 = (None, j3, w3) \<and>
    write_run_wrapper dbg j3 w3 = (None, j4, w4) \<longrightarrow>
      create_job_structure x rec dbg j w =
        calculate_predecessor rec (j4\<lparr>status_string := ''created''\<rparr>)
          (snd (set_status ''created'' j4 w4)) \<and>
      isdir w4 (working_directory j4) \<and>
      isfile w4 (path_join (working_directory j4) ''run_job.py'')) \<and>
   (parent_id j = None \<longrightarrow> calculate_predecessor rec j w = Some (None, j, w)) \<and>
   (parent_id j = Some p \<and> map_of (db w) p = Some r \<longrightarrow>
      (r_status r \<noteq> ''initialized'' \<and> r_status r \<noteq> ''created'' \<longrightarrow>
         calculate_predecessor rec j w = Some (None, j, w)) \<and>
      ((r_status r = ''initialized'' \<or> r_status r = ''created'') \<and>
       load p (snd (set_status ''suspended'' j w)) = Inr parent_job \<longrightarrow>
         calculate_predecessor rec j w =
           map_option (\<lambda>(e, parent_job', w'). (e, j\<lparr>status_string := ''suspended''\<rparr>, w'))
             (rec default_args parent_job (snd (set_status ''suspended'' j w))))) \<and>
   calculate_successor x rec j w =
     successor_loop x rec (sort (get_items_dict_parentid (job_id j) w)) j w \<and>
   sorted (sort (get_items_dict_parentid (job_id j) w)) \<and>
   (job_id j = Some i \<longrightarrow>
      set (sort (get_items_dict_parentid (job_id j) w)) =
        {k. \<exists>r. (k, r) \<in> set (db w) \<and> r_parentid r = Some i}) \<and>
   successor_loop x rec [] j w = Some (None, j, w) \<and>
   successor_loop x rec (c # cs) j w =
     (case wake_child x rec c j w of
        None \<Rightarrow> None
      | Some (Some e, j', w') \<Rightarrow> Some (Some e, j', w')
      | Some (None, j', w') \<Rightarrow> successor_loop x rec cs j' w') \<and>
   (map_of (db w) c = Some rc \<longrightarrow>
      (r_status rc \<noteq> ''suspended'' \<longrightarrow> wake_child x rec c j w = Some (None, j, w)) \<and>
      (r_status rc = ''suspended'' \<and> load c w = Inr child \<and>
       x_before_successor_calc x j (child\<lparr>status_string := ''created''\<rparr>)
         (snd (set_status ''created'' child w)) = (None, j', child', w') \<longrightarrow>
         map_of (db (snd (set_status ''created'' child w))) c =
           Some (rc\<lparr>r_status := ''created''\<rparr>) \<and>
         wake_child x rec c j w =
           map_option (\<lambda>(e, child'', w''). (e, j', w'')) (rec default_args child' w'))) \<and>
   dispatch n x rec a ''collect'' j w = run_if_collect n x rec j w \<and>
   (x_collect_output x j w = (None, ja, wa) \<and>
    x_collect_logfiles x ja wa = (None, jb, wb) \<and>
    runtime_update jb wb = (None, jc, wc) \<and>
    update_master n x (jc\<lparr>status_string := ''finished''\<rparr>) (snd (set_status ''finished'' jc wc)) =
      Some (None, jd, wd) \<longrightarrow>
      run_if_collect n x rec j w = calculate_successor x rec jd wd)"
proof -
  have g: "dispatch n x rec a ''collect'' j w = run_if_collect n x rec j w"
    by (simp add: dispatch_def)
  have h: "x_collect_output x j w = (None, ja, wa) \<and>
    x_collect_logfiles x ja wa = (None, jb, wb) \<and>
    runtime_update jb wb = (None, jc, wc) \<and>
    update_master n x (jc\<lparr>status_string := ''finished''\<rparr>) (snd (set_status ''finished'' jc wc)) =
      Some (None, jd, wd) \<longrightarrow>
      run_if_collect n x rec j w = calculate_successor x rec jd wd"
    by (simp add: run_if_collect_def set_status_def)
  have a: "copy_restart_files j (create_working_directory j w) = (None, j1, w1) \<and>
    x_write_input x j1 w1 = (None, j2, w2) \<and>
    save j2 w2 = (None, j3, w3) \<and>
    write_run_wrapper dbg j3 w3 = (None, j4, w4) \<longrightarrow>
      create_job_structure x rec dbg j w =
        calculate_predecessor rec (j4\<lparr>status_string := ''created''\<rparr>)
          (snd (set_status ''created'' j4 w4)) \<and>
      isdir w4 (working_directory j4) \<and>
      isfile w4 (path_join (working_directory j4) ''run_job.py'')"
    by (auto simp add: create_job_structure_def set_status_def write_run_wrapper_def
        write_file_def isdir_def isfile_def split: sum.splits if_splits)
  have b: "parent_id j = None \<longrightarrow> calculate_predecessor rec j w = Some (None, j, w)"
    by (simp add: calculate_predecessor_def ok_def)
  have c: "parent_id j = Some p \<and> map_of (db w) p = Some r \<longrightarrow>
      (r_status r \<noteq> ''initialized'' \<and> r_status r \<noteq> ''created'' \<longrightarrow>
         calculate_predecessor rec j w = Some (None, j, w)) \<and>
      ((r_status r = ''initialized'' \<or> r_status r = ''created'') \<and>
       load p (snd (set_status ''suspended'' j w)) = Inr parent_job \<longrightarrow>
         calculate_predecessor rec j w =
           map_option (\<lambda>(e, parent_job', w'). (e, j\<lparr>status_string := ''suspended''\<rparr>, w'))
             (rec default_args parent_job (snd (set_status ''suspended'' j w))))"
    by (auto simp add: calculate_predecessor_def ok_def get_item_by_id_def set_status_def
        seq_other_def split: option.splits)
  have d: "calculate_successor x rec j w =
     successor_loop x rec (sort (get_items_dict_parentid (job_id j) w)) j w \<and>
   sorted (sort (get_items_dict_parentid (job_id j) w)) \<and>
   (job_id j = Some i \<longrightarrow>
      set (sort (get_items_dict_parentid (job_id j) w)) =
        {k. \<exists>r. (k, r) \<in> set (db w) \<and> r_parentid r = Some i})"
    using children_set [of i w] by (simp add: calculate_successor_def)
  have e: "successor_loop x rec [] j w = Some (None, j, w) \<and>
   successor_loop x rec (c # cs) j w =
     (case wake_child x rec c j w of
        None \<Rightarrow> None
      | Some (Some e, j', w') \<Rightarrow> Some (Some e, j', w')
      | Some (None, j', w') \<Rightarrow> successor_loop x rec cs j' w')"
    by (simp add: ok_def seq_def)
  have f: "map_of (db w) c = Some rc \<longrightarrow>
      (r_status rc \<noteq> ''suspended'' \<longrightarrow> wake_child x rec c j w = Some (None, j, w)) \<and>
      (r_status rc = ''suspended'' \<and> load c w = Inr child \<and>
       x_before_successor_calc x j (child\<lparr>status_string := ''created''\<rparr>)
         (snd (set_status ''created'' child w)) = (None, j', child', w') \<longrightarrow>
         map_of (db (snd (set_status ''created'' child w))) c =
           Some (rc\<lparr>r_status := ''created''\<rparr>) \<and>
         wake_child x rec c j w =
           map_option (\<lambda>(e, child'', w''). (e, j', w'')) (rec default_args child' w'))"
    by (auto simp add: wake_child_def ok_def get_item_by_id_def set_status_def load_def
        seq_other_def map_of_item_update_status split: option.splits if_splits)
  from a b c d e f g h show ?thesis by blast
qed

text \<open>C6 as stated fails: the check does not come before the working artifacts. When the
  parent's \<^verbatim>\<open>run()\<close> is called for \<open>B\<close>, the working directory of \<open>B\<close>, which did
  not exist before, exists with the wrapper in it, and \<open>B\<close> has its row.\<close>

theorem predecessor_check_follows_the_artifacts:
  "\<not> isdir chain_world ''B'' \<and>
   (case create_job_structure script_ext (probe_runner ''B'') False chain_child chain_world of
      None \<Rightarrow> False
    | Some (e, j, w) \<Rightarrow>
        e = Some (OtherException ''built'') \<and> status_string j = ''suspended'' \<and>
        isdir w ''B'' \<and> files w ''B/run_job.py'' = Some (RunWrapper ''B'' (Some 2) False) \<and>
        db w = [(1, row ''A'' ''created'' None None),
                (2, row ''B'' ''suspended'' None (Some 1))])"
  by (simp add: engine_defs family_defs chain_world_def chain_child_def probe_runner_def)

text \<open>The status of a child is the one its row has when its turn comes, not the one it
  had when the children were looked up: \<open>B\<close> and \<open>C\<close> are both suspended children of
  \<open>A\<close> when the loop starts; the run of \<open>B\<close> marks \<open>C\<close> finished, and \<open>C\<close> is
  then neither marked \<open>created\<close> nor run.\<close>

theorem successor_status_is_read_at_each_turn:
  "sort (get_items_dict_parentid (Some 1) two_children_world) = [2, 3] \<and>
   map_of (db two_children_world) 2 = Some (row ''B'' ''suspended'' None (Some 1)) \<and>
   map_of (db two_children_world) 3 = Some (row ''C'' ''suspended'' None (Some 1)) \<and>
   (case calculate_successor script_ext sibling_runner (stored_job ''A'' 1 ''finished'')
           two_children_world of
      None \<Rightarrow> False
    | Some (e, j, w) \<Rightarrow>
        e = None \<and>
        db w = [(1, row ''A'' ''finished'' None None),
                (2, row ''B'' ''created'' None (Some 1)),
                (3, row ''C'' ''finished'' None (Some 1))] \<and>
        files w ''B'' = Some (Text []) \<and> files w ''C'' = None)"
  by (simp add: engine_defs wake_child_def GenericJob_before_successor_calc_def chain_defs
      two_children_world_def sibling_runner_def)

text \<open>The steps of the chain \<open>A\<close>, \<open>B\<close>, and the whole of it: \<open>B.run()\<close> creates
  \<open>B\<close>, suspends it and runs \<open>A\<close>, which at collect wakes \<open>B\<close>; both end finished.\<close>

theorem chain_coordination_witness:
  "create_job_structure script_ext (probe_runner ''B'') False chain_child chain_world =
     calculate_predecessor (probe_runner ''B'')
       ((stored_job ''B'' 2 ''created'')\<lparr>parent_id := Some 1\<rparr>)
       ((chain_world_saved ''created'' ''created'')
          \<lparr>files := (files chain_world)(''B/run_job.py'' \<mapsto> RunWrapper ''B'' (Some 2) False)\<rparr>) \<and>
   calculate_predecessor (probe_runner ''B'')
       ((stored_job ''B'' 2 ''created'')\<lparr>parent_id := Some 1\<rparr>)
       (chain_world_saved ''created'' ''created'') =
     Some (Some (OtherException ''built''),
           (stored_job ''B'' 2 ''suspended'')\<lparr>parent_id := Some 1\<rparr>,
           chain_world_saved ''created'' ''suspended'') \<and>
   calculate_predecessor (probe_runner ''B'')
       ((stored_job ''B'' 2 ''created'')\<lparr>parent_id := Some 1\<rparr>)
       (chain_world_saved ''finished'' ''created'') =
     Some (None, (stored_job ''B'' 2 ''created'')\<lparr>parent_id := Some 1\<rparr>,
           chain_world_saved ''finished'' ''created'') \<and>
   wake_child script_ext (probe_runner ''B'') 2 (stored_job ''A'' 1 ''finished'')
       (chain_world_saved ''finished'' ''suspended'') =
     Some (Some (OtherException ''built''), stored_job ''A'' 1 ''finished'',
           chain_world_saved ''finished'' ''created'') \<and>
   wake_child script_ext (probe_runner ''B'') 2 (stored_job ''A'' 1 ''finished'')
       (chain_world_saved ''finished'' ''finished'') =
     Some (None, stored_job ''A'' 1 ''finished'', chain_world_saved ''finished'' ''finished'') \<and>
   sort (get_items_dict_parentid (Some 1) (chain_world_saved ''finished'' ''suspended'')) = [2] \<and>
   run_if_collect (Suc 0) script_ext (probe_runner ''B'') (stored_job ''A'' 1 ''collect'')
       (chain_world_saved ''collect'' ''suspended'') =
     calculate_successor script_ext (probe_runner ''B'') (stored_job ''A'' 1 ''finished'')
       (chain_world_saved ''finished'' ''suspended'') \<and>
   (case run (Suc (Suc (Suc (Suc (Suc (Suc 0)))))) script_ext default_args chain_child chain_world of
      None \<Rightarrow> False
    | Some (e, j, w) \<Rightarrow>
        e = None \<and> job_id j = Some 2 \<and> status_string j = ''suspended'' \<and>
        db w = [(1, row ''A'' ''finished'' None None),
                (2, row ''B'' ''finished'' None (Some 1))])"
proof -
  let ?B = "(stored_job ''B'' 2 ''created'')\<lparr>parent_id := Some 1\<rparr>"
  let ?A = "stored_job ''A'' 1 ''finished''"
  let ?P = "probe_runner ''B''"
  let ?w1 = "create_working_directory chain_child chain_world"
  let ?j3 = "job_of (save chain_child ?w1)"
  let ?w3 = "world_of (save chain_child ?w1)"
  let ?w4 = "world_of (write_run_wrapper False ?j3 ?w3)"
  have a: "copy_restart_files chain_child ?w1 = (None, chain_child, ?w1) \<and>
           x_write_input script_ext chain_child ?w1 = (None, chain_child, ?w1) \<and>
           save chain_child ?w1 = (None, ?j3, ?w3) \<and>
           write_run_wrapper False ?j3 ?w3 = (None, ?j3, ?w4)"
    by (simp add: engine_defs chain_defs)
  from chain_coordination [where j = chain_child and w = chain_world and x = script_ext
      and ?j1.0 = chain_child and ?w1.0 = ?w1 and ?j2.0 = chain_child and ?w2.0 = ?w1
      and ?j3.0 = ?j3 and ?w3.0 = ?w3 and dbg = False and ?j4.0 = ?j3 and ?w4.0 = ?w4
      and rec = ?P, THEN conjunct1] a
  have c1: "create_job_structure script_ext ?P False chain_child chain_world =
        calculate_predecessor ?P (?j3\<lparr>status_string := ''created''\<rparr>)
          (snd (set_status ''created'' ?j3 ?w4))"
    by blast
  have e1: "?j3\<lparr>status_string := ''created''\<rparr> = ?B"
    "snd (set_status ''created'' ?j3 ?w4) =
       (chain_world_saved ''created'' ''created'')
          \<lparr>files := (files chain_world)(''B/run_job.py'' \<mapsto> RunWrapper ''B'' (Some 2) False)\<rparr>"
    by (simp_all add: engine_defs chain_defs)
  from c1 e1 have d1: "create_job_structure script_ext ?P False chain_child chain_world =
     calculate_predecessor ?P ?B
       ((chain_world_saved ''created'' ''created'')
          \<lparr>files := (files chain_world)(''B/run_job.py'' \<mapsto> RunWrapper ''B'' (Some 2) False)\<rparr>)"
    by (simp only:)
  have b: "parent_id ?B = Some 1 \<and>
           map_of (db (chain_world_saved ''created'' ''created'')) 1 =
             Some (row ''A'' ''created'' None None)"
    "(r_status (row ''A'' ''created'' None None) = ''initialized'' \<or>
      r_status (row ''A'' ''created'' None None) = ''created'') \<and>
     load 1 (snd (set_status ''suspended'' ?B (chain_world_saved ''created'' ''created''))) =
       Inr (stored_job ''A'' 1 ''created'')"
    by (simp_all add: engine_defs chain_defs)
  from chain_coordination [where j = ?B and w = "chain_world_saved ''created'' ''created''"
      and p = 1 and r = "row ''A'' ''created'' None None"
      and parent_job = "stored_job ''A'' 1 ''created''" and rec = ?P,
      THEN conjunct2, THEN conjunct2, THEN conjunct1] b
  have c2: "calculate_predecessor ?P ?B (chain_world_saved ''created'' ''created'') =
           map_option (\<lambda>(e, parent_job', w'). (e, ?B\<lparr>status_string := ''suspended''\<rparr>, w'))
             (?P default_args (stored_job ''A'' 1 ''created'')
                (snd (set_status ''suspended'' ?B (chain_world_saved ''created'' ''created''))))"
    by blast
  have e2: "map_option (\<lambda>(e, parent_job', w'). (e, ?B\<lparr>status_string := ''suspended''\<rparr>, w'))
             (?P default_args (stored_job ''A'' 1 ''created'')
                (snd (set_status ''suspended'' ?B (chain_world_saved ''created'' ''created'')))) =
     Some (Some (OtherException ''built''),
           (stored_job ''B'' 2 ''suspended'')\<lparr>parent_id := Some 1\<rparr>,
           chain_world_saved ''created'' ''suspended'')"
    by (simp add: engine_defs chain_defs)
  from c2 e2 have d2: "calculate_predecessor ?P ?B (chain_world_saved ''created'' ''created'') =
     Some (Some (OtherException ''built''),
           (stored_job ''B'' 2 ''suspended'')\<lparr>parent_id := Some 1\<rparr>,
           chain_world_saved ''created'' ''suspended'')"
    by (simp only:)
  have b3: "parent_id ?B = Some 1 \<and>
           map_of (db (chain_world_saved ''finished'' ''created'')) 1 =
             Some (row ''A'' ''finished'' None None)"
    "r_status (row ''A'' ''finished'' None None) \<noteq> ''initialized'' \<and>
     r_status (row ''A'' ''finished'' None None) \<noteq> ''created''"
    by (simp_all add: engine_defs chain_defs)
  from chain_coordination [where j = ?B and w = "chain_world_saved ''finished'' ''created''"
      and p = 1 and r = "row ''A'' ''finished'' None None" and rec = ?P,
      THEN conjunct2, THEN conjunct2, THEN conjunct1] b3
  have d3: "calculate_predecessor ?P ?B (chain_world_saved ''finished'' ''created'') =
     Some (None, ?B, chain_world_saved ''finished'' ''created'')"
    by blast
  let ?child = "chain_child\<lparr>job_id := Some 2, status_string := ''suspended'',
                  status_job_id := Some 2\<rparr>"
  have b4: "map_of (db (chain_world_saved ''finished'' ''suspended'')) 2 =
              Some (row ''B'' ''suspended'' None (Some 1))"
    "r_status (row ''B'' ''suspended'' None (Some 1)) = ''suspended'' \<and>
     load 2 (chain_world_saved ''finished'' ''suspended'') = Inr ?child \<and>
     x_before_successor_calc script_ext ?A (?child\<lparr>status_string := ''created''\<rparr>)
         (snd (set_status ''created'' ?child (chain_world_saved ''finished'' ''suspended''))) =
       (None, ?A, ?B, chain_world_saved ''finished'' ''created'')"
    by (simp_all add: engine_defs chain_defs GenericJob_before_successor_calc_def)
  from chain_coordination [where j = ?A and w = "chain_world_saved ''finished'' ''suspended''"
      and c = 2 and rc = "row ''B'' ''suspended'' None (Some 1)" and child = ?child
      and j' = ?A and child' = ?B and w' = "chain_world_saved ''finished'' ''created''"
      and x = script_ext and rec = ?P,
      THEN conjunct2, THEN conjunct2, THEN conjunct2, THEN conjunct2, THEN conjunct2, THEN conjunct2, THEN conjunct2, THEN conjunct2, THEN conjunct1] b4
  have c4: "wake_child script_ext ?P 2 ?A (chain_world_saved ''finished'' ''suspended'') =
           map_option (\<lambda>(e, child'', w''). (e, ?A, w''))
             (?P default_args ?B (chain_world_saved ''finished'' ''created''))"
    by blast
  have e4: "map_option (\<lambda>(e, child'', w''). (e, ?A, w''))
             (?P default_args ?B (chain_world_saved ''finished'' ''created'')) =
     Some (Some (OtherException ''built''), ?A, chain_world_saved ''finished'' ''created'')"
    by (simp add: engine_defs chain_defs)
  from c4 e4 have d4: "wake_child script_ext ?P 2 ?A (chain_world_saved ''finished'' ''suspended'') =
     Some (Some (OtherException ''built''), ?A, chain_world_saved ''finished'' ''created'')"
    by (simp only:)
  have b5: "map_of (db (chain_world_saved ''finished'' ''finished'')) 2 =
              Some (row ''B'' ''finished'' None (Some 1))"
    "r_status (row ''B'' ''finished'' None (Some 1)) \<noteq> ''suspended''"
    by (simp_all add: chain_defs)
  from chain_coordination [where j = ?A and w = "chain_world_saved ''finished'' ''finished''"
      and c = 2 and rc = "row ''B'' ''finished'' None (Some 1)"
      and x = script_ext and rec = ?P,
      THEN conjunct2, THEN conjunct2, THEN conjunct2, THEN conjunct2, THEN conjunct2, THEN conjunct2, THEN conjunct2, THEN conjunct2, THEN conjunct1] b5
  have d5: "wake_child script_ext ?P 2 ?A (chain_world_saved ''finished'' ''finished'') =
     Some (None, ?A, chain_world_saved ''finished'' ''finished'')"
    by blast
  have d6: "sort (get_items_dict_parentid (Some 1) (chain_world_saved ''finished'' ''suspended'')) = [2]"
    by (simp add: get_items_dict_parentid_def chain_defs)
  let ?Ac = "stored_job ''A'' 1 ''collect''"
  let ?W = "chain_world_saved ''collect'' ''suspended''"
  have b7: "x_collect_output script_ext ?Ac ?W = (None, ?Ac, ?W) \<and>
            x_collect_logfiles script_ext ?Ac ?W = (None, ?Ac, ?W) \<and>
            runtime_update ?Ac ?W = (None, ?Ac, ?W) \<and>
            update_master (Suc 0) script_ext (?Ac\<lparr>status_string := ''finished''\<rparr>)
                (snd (set_status ''finished'' ?Ac ?W)) =
              Some (None, ?A, chain_world_saved ''finished'' ''suspended'')"
    by (simp add: engine_defs chain_defs)
  from chain_coordination [where j = ?Ac and w = ?W and x = script_ext and rec = ?P
      and n = "Suc 0" and ja = ?Ac and wa = ?W and jb = ?Ac and wb = ?W and jc = ?Ac and wc = ?W
      and jd = ?A and wd = "chain_world_saved ''finished'' ''suspended''",
      THEN conjunct2, THEN conjunct2, THEN conjunct2, THEN conjunct2, THEN conjunct2, THEN conjunct2, THEN conjunct2, THEN conjunct2, THEN conjunct2, THEN conjunct2] b7
  have d7: "run_if_collect (Suc 0) script_ext ?P ?Ac ?W =
     calculate_successor script_ext ?P ?A (chain_world_saved ''finished'' ''suspended'')"
    by blast
  from d1 d2 d3 d4 d5 d6 d7 chain_example show ?thesis by blast
qed

section \<open>The recursion budget\<close>

text \<open>The budget only bounds the depth of the calls: a result reached with some budget is
  the result with any larger one, for \<^verbatim>\<open>update_master\<close> and for \<^verbatim>\<open>run\<close> with all
  its handlers.\<close>

lemma update_master_Suc:
  "update_master n x j w = Some res \<Longrightarrow> update_master (Suc n) x j w = Some res"
proof (induction n arbitrary: w)
  case 0
  then show ?case by simp
next
  case (Suc n)
  show ?case
  proof (cases "update_master_pass x j w")
    case (Inl r)
    with Suc.prems show ?thesis by simp
  next
    case (Inr w')
    with Suc.prems have "update_master n x j w' = Some res" by simp
    from Suc.IH [OF this] Inr show ?thesis by simp
  qed
qed

lemma update_master_more_fuel:
  "update_master n x j w = Some res \<Longrightarrow> update_master (n + k) x j w = Some res"
proof (induction k)
  case 0
  then show ?case by simp
next
  case (Suc k)
  then have "update_master (n + k) x j w = Some res" by simp
  then have "update_master (Suc (n + k)) x j w = Some res" by (rule update_master_Suc)
  then show ?case by (simp only: add_Suc_right)
qed

lemma seq_mono:
  assumes "seq m k = Some res"
    and "\<And>r. m = Some r \<Longrightarrow> m' = Some r"
    and "\<And>j w r. k j w = Some r \<Longrightarrow> k' j w = Some r"
  shows "seq m' k' = Some res"
proof (cases m)
  case None
  with assms(1) show ?thesis by (simp add: seq_def)
next
  case (Some r)
  then have m': "m' = Some r" by (rule assms(2))
  obtain e j w where r: "r = (e, j, w)" by (cases r) auto
  show ?thesis
  proof (cases e)
    case None
    with assms(1) Some r have "k j w = Some res" by (simp add: seq_def)
    then have "k' j w = Some res" by (rule assms(3))
    with m' r None show ?thesis by (simp add: seq_def)
  next
    case (Some e')
    from assms(1) \<open>m = Some r\<close> r Some have "res = (Some e', j, w)" by (simp add: seq_def)
    with m' r Some show ?thesis by (simp add: seq_def)
  qed
qed

lemma seq_other_mono:
  assumes "seq_other m self k = Some res"
    and "\<And>r. m = Some r \<Longrightarrow> m' = Some r"
  shows "seq_other m' self k = Some res"
proof (cases m)
  case None
  with assms(1) show ?thesis by (simp add: seq_other_def)
next
  case (Some r)
  then have "m' = m" using assms(2) by simp
  with assms(1) show ?thesis by simp
qed

lemma calculate_predecessor_mono:
  assumes "calculate_predecessor rec j w = Some res"
    and R: "\<And>a j w r. rec a j w = Some r \<Longrightarrow> rec' a j w = Some r"
  shows "calculate_predecessor rec' j w = Some res"
  using assms(1) unfolding calculate_predecessor_def
  by (auto simp add: ok_def raises_def split: option.splits sum.splits if_splits prod.splits
      elim!: seq_other_mono dest: R)

lemma wake_child_mono:
  assumes "wake_child x rec c j w = Some res"
    and R: "\<And>a j w r. rec a j w = Some r \<Longrightarrow> rec' a j w = Some r"
  shows "wake_child x rec' c j w = Some res"
  using assms(1) unfolding wake_child_def
  by (auto simp add: ok_def raises_def split: option.splits sum.splits if_splits prod.splits
      elim!: seq_other_mono dest: R)

lemma successor_loop_mono:
  assumes "successor_loop x rec cs j w = Some res"
    and R: "\<And>a j w r. rec a j w = Some r \<Longrightarrow> rec' a j w = Some r"
  shows "successor_loop x rec' cs j w = Some res"
  using assms(1)
proof (induction cs arbitrary: j w res)
  case Nil
  then show ?case by simp
next
  case (Cons c cs)
  from Cons.prems have "seq (wake_child x rec c j w) (successor_loop x rec cs) = Some res"
    by simp
  then have "seq (wake_child x rec' c j w) (successor_loop x rec' cs) = Some res"
    by (rule seq_mono) (auto intro: wake_child_mono R Cons.IH)
  then show ?case by simp
qed


lemma calculate_successor_mono:
  assumes "calculate_successor x rec j w = Some res"
    and R: "\<And>a j w r. rec a j w = Some r \<Longrightarrow> rec' a j w = Some r"
  shows "calculate_successor x rec' j w = Some res"
  using assms(1) unfolding calculate_successor_def by (rule successor_loop_mono) (rule R)

lemma create_job_structure_mono:
  assumes "create_job_structure x rec dbg j w = Some res"
    and R: "\<And>a j w r. rec a j w = Some r \<Longrightarrow> rec' a j w = Some r"
  shows "create_job_structure x rec' dbg j w = Some res"
  using assms(1) unfolding create_job_structure_def
  by (elim seq_mono) (auto split: prod.splits intro: calculate_predecessor_mono R)

lemma run_if_modal_mono:
  assumes "run_if_modal x rec j w = Some res"
    and R: "\<And>a j w r. rec a j w = Some r \<Longrightarrow> rec' a j w = Some r"
  shows "run_if_modal x rec' j w = Some res"
  using assms(1) unfolding run_if_modal_def
  by (auto split: prod.splits proc_result.splits sum.splits dest: R)

lemma run_if_created_mono:
  assumes "run_if_created x rec q j w = Some res"
    and R: "\<And>a j w r. rec a j w = Some r \<Longrightarrow> rec' a j w = Some r"
  shows "run_if_created x rec' q j w = Some res"
  using assms(1) unfolding run_if_created_def
  by (auto split: prod.splits if_splits intro: run_if_modal_mono R)

lemma run_if_new_mono:
  assumes "run_if_new x rec dbg q j w = Some res"
    and R: "\<And>a j w r. rec a j w = Some r \<Longrightarrow> rec' a j w = Some r"
  shows "run_if_new x rec' dbg q j w = Some res"
proof (cases "x_check_if_job_exists x j w")
  case True
  with assms(1) show ?thesis by (simp add: run_if_new_def)
next
  case False
  show ?thesis
  proof (cases "lib_available j \<and> lib_enabled j")
    case True
    obtain e i w1 where l: "x_run_if_lib x j w = (e, i, w1)" by (cases "x_run_if_lib x j w") auto
    show ?thesis
    proof (cases e)
      case None
      with assms(1) False True l
      have "seq (Some (refresh_job_status (j\<lparr>job_id := i\<rparr>) w1))
              (\<lambda>j2 w2. case set_status ''finished'' j2 w2 of (j3, w3) \<Rightarrow> rec default_args j3 w3) =
            Some res"
        by (simp add: run_if_new_def)
      then have "seq (Some (refresh_job_status (j\<lparr>job_id := i\<rparr>) w1))
              (\<lambda>j2 w2. case set_status ''finished'' j2 w2 of (j3, w3) \<Rightarrow> rec' default_args j3 w3) =
            Some res"
        by (rule seq_mono) (auto split: prod.splits intro: R)
      with False True l None show ?thesis by (simp add: run_if_new_def)
    next
      case (Some e')
      with assms(1) False True l show ?thesis by (simp add: run_if_new_def)
    qed
  next
    case nolib: False
    with assms(1) False
    have "seq (create_job_structure x rec dbg j w)
            (\<lambda>j1 w1. rec (default_args\<lparr>que_wait_for := q\<rparr>) j1 w1) = Some res"
      by (simp add: run_if_new_def)
    then have "seq (create_job_structure x rec' dbg j w)
            (\<lambda>j1 w1. rec' (default_args\<lparr>que_wait_for := q\<rparr>) j1 w1) = Some res"
      by (rule seq_mono) (auto intro: create_job_structure_mono R)
    with False nolib show ?thesis by (auto simp add: run_if_new_def)
  qed
qed

lemma run_if_collect_mono:
  assumes "run_if_collect n x rec j w = Some res"
    and R: "\<And>a j w r. rec a j w = Some r \<Longrightarrow> rec' a j w = Some r"
    and U: "\<And>j w r. update_master n x j w = Some r \<Longrightarrow> update_master n' x j w = Some r"
  shows "run_if_collect n' x rec' j w = Some res"
  using assms(1) unfolding run_if_collect_def
  by (elim seq_mono)
    (auto split: prod.splits elim!: seq_mono intro: U calculate_successor_mono R)

lemma run_if_finished_mono:
  assumes "run_if_finished n x rec again j w = Some res"
    and R: "\<And>a j w r. rec a j w = Some r \<Longrightarrow> rec' a j w = Some r"
    and U: "\<And>j w r. update_master n x j w = Some r \<Longrightarrow> update_master n' x j w = Some r"
  shows "run_if_finished n' x rec' again j w = Some res"
proof (cases again)
  case True
  with assms(1) show ?thesis
    unfolding run_if_finished_def
    by (auto simp add: Let_def split: prod.splits elim!: seq_mono intro: R)
next
  case False
  with assms(1) show ?thesis
    unfolding run_if_finished_def by (auto elim!: seq_mono intro: U)
qed

lemma dispatch_mono:
  assumes "dispatch n x rec a status j w = Some res"
    and R: "\<And>a j w r. rec a j w = Some r \<Longrightarrow> rec' a j w = Some r"
    and U: "\<And>j w r. update_master n x j w = Some r \<Longrightarrow> update_master n' x j w = Some r"
  shows "dispatch n' x rec' a status j w = Some res"
  using assms(1) unfolding dispatch_def
  by (auto simp add: run_if_submitted_def run_if_running_def run_if_suspended_def
      split: if_splits prod.splits
      intro: run_if_new_mono run_if_created_mono run_if_collect_mono run_if_finished_mono R U)

lemma run_body_mono:
  assumes "run_body n x rec a j w = Some res"
    and R: "\<And>a j w r. rec a j w = Some r \<Longrightarrow> rec' a j w = Some r"
    and U: "\<And>j w r. update_master n x j w = Some r \<Longrightarrow> update_master n' x j w = Some r"
  shows "run_body n' x rec' a j w = Some res"
  using assms(1) unfolding run_body_def Let_def
  by (rule seq_mono) (auto intro: dispatch_mono R U)

lemma run_except_Some:
  "run_except m = Some res \<Longrightarrow> \<exists>r. m = Some r"
  by (cases m) (auto simp add: run_except_def)

lemma run_Suc: "run n x a j w = Some res \<Longrightarrow> run (Suc n) x a j w = Some res"
proof (induction n arbitrary: a j w res)
  case 0
  then show ?case by simp
next
  case (Suc n)
  from Suc.prems have e: "run_except (run_body n x (run n x) a j w) = Some res" by simp
  then obtain r where r: "run_body n x (run n x) a j w = Some r"
    by (auto dest: run_except_Some)
  then have "run_body (Suc n) x (run (Suc n) x) a j w = Some r"
    by (rule run_body_mono) (erule Suc.IH, erule update_master_Suc)
  with e r show ?case by simp
qed

lemma run_more_fuel: "run n x a j w = Some res \<Longrightarrow> run (n + k) x a j w = Some res"
proof (induction k)
  case 0
  then show ?case by simp
next
  case (Suc k)
  then have "run (n + k) x a j w = Some res" by simp
  then have "run (Suc (n + k)) x a j w = Some res" by (rule run_Suc)
  then show ?case by (simp only: add_Suc_right)
qed

end
